theory Spec2Isabelle
  imports Complex_Main
begin

section \<open>Python values, exceptions and the console\<close>

text \<open>
  The monitor of \<^verbatim>\<open>system_health_monitor.py\<close> reads the live state of the host through
  \<^verbatim>\<open>platform\<close>, \<^verbatim>\<open>psutil\<close>, \<^verbatim>\<open>GPUtil\<close>, \<^verbatim>\<open>wmi\<close> and one \<^verbatim>\<open>subprocess\<close> call, mutates
  \<^verbatim>\<open>self.health_score\<close> and prints. Every query of the host is a value of type
  \<open>exn + 'a\<close>: \<open>Inl e\<close> when the call raises \<open>e\<close>, \<open>Inr v\<close> when it returns \<open>v\<close>.
  Only subclasses of \<^verbatim>\<open>Exception\<close> are modelled (they are what \<^verbatim>\<open>except Exception\<close>
  catches). Python floats are modelled as reals: every comparison of the source is
  between a reading and an integer literal, which Python decides exactly; NaN readings
  are outside the model.
\<close>

datatype exn =
    CalledProcessError string
  | PermissionError
  | ValueError
  | IndexError
  | TypeError
  | AttributeError
  | OtherError string

datatype val = NoneV | BoolV bool | IntV int | FloatV real | StrV string | ExnV exn

datatype breach =
    HighCpuTemperature | HighCpuUsage | HighRamUsage | DriveNearlyFull | LowBattery | HighGpu

datatype requirement = Processor | Ram | Storage | SecureBoot | Tpm2

datatype check_block = ProcessorInfo | RamInfo | StorageInfo | TpmSecureBoot

datatype colour = GREEN | YELLOW | RED

datatype tone = GoodCondition | NeedsAttention | PoorCondition

text \<open>
  One value of \<open>line\<close> per \<^verbatim>\<open>print\<close> call of the source. Lines that a property speaks
  about have a constructor of their own; every other line is \<open>Text\<close> with the message
  (without colour codes and emoji) and the interpolated values. The \<^verbatim>\<open>logging\<close> calls
  repeat the printed facts in the log file and are not modelled.
\<close>

datatype line =
    Section string
  | Text string "val list"
  | Warning breach "val list"
  | Interface string
  | MacAddress string
  | IpAddress string
  | AlreadyWindows11
  | NoUpgradePath string
  | Passed requirement
  | Failed requirement
  | CouldNotCheck check_block "val list"
  | Verdict string bool
  | HealthScore colour int
  | Message tone

record monitor =
  health_score :: int
  console :: "line list"

section \<open>Statements: state, exceptions, \<^verbatim>\<open>try\<close>/\<^verbatim>\<open>except\<close>\<close>

text \<open>
  A statement maps the monitor to an outcome and the monitor it leaves behind; after a
  raise the mutations made so far persist, as they do on a Python object.
\<close>

type_synonym 'a stmt = "monitor \<Rightarrow> (exn + 'a) \<times> monitor"

definition ret :: "'a \<Rightarrow> 'a stmt" where
  "ret a = (\<lambda>m. (Inr a, m))"

definition raise :: "exn \<Rightarrow> 'a stmt" where
  "raise e = (\<lambda>m. (Inl e, m))"

definition query :: "exn + 'a \<Rightarrow> 'a stmt" where
  "query q = (\<lambda>m. (q, m))"

definition bind :: "'a stmt \<Rightarrow> ('a \<Rightarrow> 'b stmt) \<Rightarrow> 'b stmt" where
  "bind s f = (\<lambda>m. case s m of (Inl e, m') \<Rightarrow> (Inl e, m') | (Inr a, m') \<Rightarrow> f a m')"

definition andthen :: "'a stmt \<Rightarrow> 'b stmt \<Rightarrow> 'b stmt" where
  "andthen s t = bind s (\<lambda>_. t)"

definition catch :: "'a stmt \<Rightarrow> (exn \<Rightarrow> 'a stmt) \<Rightarrow> 'a stmt" where
  "catch s h = (\<lambda>m. case s m of (Inl e, m') \<Rightarrow> h e m' | (Inr a, m') \<Rightarrow> (Inr a, m'))"

definition say :: "line \<Rightarrow> unit stmt" where
  "say l = (\<lambda>m. (Inr (), m\<lparr>console := console m @ [l]\<rparr>))"

definition penalise :: "int \<Rightarrow> unit stmt" where
  "penalise k = (\<lambda>m. (Inr (), m\<lparr>health_score := health_score m - k\<rparr>))"

primrec foreach :: "'a list \<Rightarrow> ('a \<Rightarrow> unit stmt) \<Rightarrow> unit stmt" where
  "foreach [] f = ret ()"
| "foreach (x # xs) f = andthen (f x) (foreach xs f)"

definition print_section :: "string \<Rightarrow> unit stmt" where
  "print_section title = say (Section title)"

section \<open>Strings: \<^verbatim>\<open>strip\<close>, \<^verbatim>\<open>split('.')\<close>, \<^verbatim>\<open>int\<close>, \<^verbatim>\<open>in\<close>\<close>

definition is_space :: "char \<Rightarrow> bool" where
  "is_space c = (c \<in> set [CHR 0x20, CHR 0x09, CHR 0x0A, CHR 0x0B, CHR 0x0C, CHR 0x0D,
                           CHR 0x1C, CHR 0x1D, CHR 0x1E, CHR 0x1F])"

definition py_strip :: "string \<Rightarrow> string" where
  "py_strip s = rev (dropWhile is_space (rev (dropWhile is_space s)))"

fun py_split_dot :: "string \<Rightarrow> string list" where
  "py_split_dot [] = [[]]"
| "py_split_dot (c # cs) =
     (if c = CHR ''.'' then [] # py_split_dot cs
      else (case py_split_dot cs of [] \<Rightarrow> [[c]] | x # xs \<Rightarrow> (c # x) # xs))"

definition py_index :: "'a list \<Rightarrow> nat \<Rightarrow> exn + 'a" where
  "py_index xs i = (if i < length xs then Inr (xs ! i) else Inl IndexError)"

definition digit_val :: "char \<Rightarrow> int option" where
  "digit_val c = map_of (zip ''0123456789'' [0, 1, 2, 3, 4, 5, 6, 7, 8, 9]) c"

text \<open>
  The digits of a decimal literal after its first digit: digits, with single underscores
  allowed between two digits.
\<close>

fun more_digits :: "string \<Rightarrow> int \<Rightarrow> int option" where
  "more_digits [] acc = Some acc"
| "more_digits (c # cs) acc =
     (case digit_val c of
        Some d \<Rightarrow> more_digits cs (10 * acc + d)
      | None \<Rightarrow>
          (if c = CHR ''_'' then
             (case cs of
                [] \<Rightarrow> None
              | c' # cs' \<Rightarrow>
                  (case digit_val c' of
                     Some d \<Rightarrow> more_digits cs' (10 * acc + d)
                   | None \<Rightarrow> None))
           else None))"

definition unsigned_int :: "string \<Rightarrow> int option" where
  "unsigned_int s =
     (case s of
        [] \<Rightarrow> None
      | c # cs \<Rightarrow> (case digit_val c of Some d \<Rightarrow> more_digits cs d | None \<Rightarrow> None))"

text \<open>
  \<^verbatim>\<open>int(s)\<close> for a string, base ten: surrounding whitespace is stripped, one sign is
  allowed, anything else raises \<^verbatim>\<open>ValueError\<close>. Characters are bytes here, so the
  non-ASCII whitespace and digits that Python also accepts are not covered.
\<close>

definition py_int :: "string \<Rightarrow> exn + int" where
  "py_int s =
     (case py_strip s of
        [] \<Rightarrow> Inl ValueError
      | c # cs \<Rightarrow>
          (if c = CHR ''-'' then
             (case unsigned_int cs of Some n \<Rightarrow> Inr (- n) | None \<Rightarrow> Inl ValueError)
           else if c = CHR ''+'' then
             (case unsigned_int cs of Some n \<Rightarrow> Inr n | None \<Rightarrow> Inl ValueError)
           else
             (case unsigned_int (c # cs) of Some n \<Rightarrow> Inr n | None \<Rightarrow> Inl ValueError)))"

fun starts_with :: "string \<Rightarrow> string \<Rightarrow> bool" where
  "starts_with s [] = True"
| "starts_with [] (p # ps) = False"
| "starts_with (c # cs) (p # ps) = (c = p \<and> starts_with cs ps)"

text \<open>\<^verbatim>\<open>sub in s\<close> for two strings.\<close>

fun py_in :: "string \<Rightarrow> string \<Rightarrow> bool" where
  "py_in sub [] = (sub = [])"
| "py_in sub (c # cs) = (starts_with (c # cs) sub \<or> py_in sub cs)"

section \<open>The host\<close>

text \<open>
  The readings the collectors consume. A value of \<open>host\<close> is one snapshot of the machine:
  what each platform call returns, or the exception it raises.
\<close>

record scpufreq =
  freq_current :: real
  freq_max :: real

record svmem =
  mem_total :: int
  mem_used :: int
  mem_percent :: real

record sdiskpart =
  device :: string
  mountpoint :: string

record sdiskusage =
  du_total :: int
  du_used :: int
  du_free :: int
  du_percent :: real

text \<open>\<^verbatim>\<open>power_plugged\<close> is \<^verbatim>\<open>True\<close>, \<^verbatim>\<open>False\<close> or \<^verbatim>\<open>None\<close> (unknown).\<close>

record sbattery =
  bat_percent :: real
  power_plugged :: "bool option"

record gpu =
  gpu_name :: string
  memoryTotal :: real
  memoryUsed :: real
  temperature :: real
  load :: real

record snicaddr =
  family :: int
  address :: string

text \<open>
  Reading a property of a WMI object can raise. \<open>SecureBoot\<close> is kept as its truth
  value, \<open>SpecVersion\<close> as a string or \<^verbatim>\<open>None\<close>.
\<close>

record video_controller =
  vc_Name :: "exn + val"
  DriverVersion :: "exn + val"

record desktop_monitor =
  dm_Name :: "exn + val"
  ScreenWidth :: "exn + val"
  ScreenHeight :: "exn + val"

record baseboard =
  bb_Manufacturer :: "exn + val"
  Product :: "exn + val"

record bios =
  bios_Manufacturer :: "exn + val"
  SMBIOSBIOSVersion :: "exn + val"

record operating_system =
  os_SecureBoot :: "exn + bool"

record tpm =
  SpecVersion :: "exn + string option"

record wmi =
  Win32_VideoController :: "exn + video_controller list"
  Win32_DesktopMonitor :: "exn + desktop_monitor list"
  Win32_BaseBoard :: "exn + baseboard list"
  Win32_BIOS :: "exn + bios list"
  Win32_OperatingSystem :: "exn + operating_system list"
  Win32_Tpm :: "exn + tpm list"

record host =
  platform_system :: string
  platform_release :: string
  platform_version :: string
  platform_machine :: string
  platform_processor :: string
  platform_node :: string
  now :: string
  get_hotfix :: "exn + string"
  cpu_percent :: "exn + real"
  cpu_freq :: "exn + scpufreq option"
  cpu_count :: "exn + int option"
  has_sensors_temperatures :: bool
  sensors_temperatures :: "exn + (string \<rightharpoonup> real list)"
  virtual_memory :: "exn + svmem"
  disk_partitions :: "exn + sdiskpart list"
  disk_usage :: "string \<Rightarrow> exn + sdiskusage"
  sensors_battery :: "exn + sbattery option"
  getGPUs :: "exn + gpu list"
  net_if_addrs :: "exn + (string \<times> snicaddr list) list"
  WMI :: "exn + wmi"

text \<open>Reading an attribute of a value that may be \<^verbatim>\<open>None\<close>.\<close>

definition attr :: "'a option \<Rightarrow> ('a \<Rightarrow> 'b) \<Rightarrow> 'b stmt" where
  "attr obj field = (case obj of None \<Rightarrow> raise AttributeError | Some x \<Rightarrow> ret (field x))"

text \<open>\<^verbatim>\<open>a < b\<close> where \<^verbatim>\<open>a\<close> may be \<^verbatim>\<open>None\<close>: Python 3 raises \<^verbatim>\<open>TypeError\<close>.\<close>

definition less_int :: "int option \<Rightarrow> int \<Rightarrow> bool stmt" where
  "less_int a b = (case a of None \<Rightarrow> raise TypeError | Some x \<Rightarrow> ret (x < b))"

definition opt_int :: "int option \<Rightarrow> val" where
  "opt_int a = (case a of None \<Rightarrow> NoneV | Some x \<Rightarrow> IntV x)"

definition GiB :: real where
  "GiB = 1024 ^ 3"

definition AF_INET :: int where
  "AF_INET = 2"

section \<open>\<^verbatim>\<open>SystemHealthMonitor\<close>\<close>

definition AUTHOR_INFO :: string where
  "AUTHOR_INFO = ''Created by Mohammad Darudi''"

definition init :: monitor where
  "init = \<lparr>health_score = 100,
           console = [Text ''Starting system health check...'' [], Text AUTHOR_INFO []]\<rparr>"

definition get_system_info :: "host \<Rightarrow> unit stmt" where
  "get_system_info h =
     andthen (print_section ''System Information'')
       (foreach
          [(''Operating System'', platform_system h @ '' '' @ platform_release h),
           (''Architecture'', platform_machine h),
           (''Processor'', platform_processor h),
           (''Hostname'', platform_node h),
           (''Current Time'', now h)]
          (\<lambda>(key, value). say (Text ''{}: {}'' [StrV key, StrV value])))"

definition get_last_windows_update :: "host \<Rightarrow> unit stmt" where
  "get_last_windows_update h =
     (if platform_system h \<noteq> ''Windows'' then
        say (Text ''This feature is only available for Windows.'' [])
      else
        andthen (print_section ''Last Windows Update'')
          (catch
             (bind (query (get_hotfix h)) (\<lambda>result.
                if py_strip result \<noteq> [] then say (Text ''{}'' [StrV (py_strip result)])
                else say (Text ''No update information found. Your system may be up-to-date.'' [])))
             (\<lambda>e. case e of
                CalledProcessError output \<Rightarrow>
                  say (Text ''Failed to get update info. Error: {}'' [StrV (py_strip output)])
              | _ \<Rightarrow>
                  say (Text ''An unexpected error occurred while getting update info: {}'' [ExnV e]))))"

definition cpu_temperature :: "host \<Rightarrow> unit stmt" where
  "cpu_temperature h =
     (if has_sensors_temperatures h then
        bind (query (sensors_temperatures h)) (\<lambda>temps.
          case temps ''coretemp'' of
            Some readings \<Rightarrow>
              bind (query (py_index readings 0)) (\<lambda>cpu_temp.
              andthen (say (Text ''CPU Temperature: {}C'' [FloatV cpu_temp]))
                (if cpu_temp > 85 then
                   andthen (penalise 15)
                     (say (Warning HighCpuTemperature [FloatV cpu_temp]))
                 else ret ()))
          | None \<Rightarrow>
              say (Text ''CPU temperature information not available for this platform.'' []))
      else say (Text ''psutil.sensors_temperatures() is not available on this system.'' []))"

definition get_cpu_info :: "host \<Rightarrow> unit stmt" where
  "get_cpu_info h =
     andthen (print_section ''Processor (CPU) Information'')
       (catch
          (bind (query (cpu_percent h)) (\<lambda>usage.
           bind (query (cpu_freq h)) (\<lambda>freq.
           bind (query (cpu_count h)) (\<lambda>n.
           andthen (say (Text ''Core Count: {}'' [opt_int n]))
          (bind (attr freq freq_max) (\<lambda>fmax.
           andthen (say (Text ''Max Frequency: {} MHz'' [FloatV fmax]))
          (bind (attr freq freq_current) (\<lambda>fcur.
           andthen (say (Text ''Current Frequency: {} MHz'' [FloatV fcur]))
          (andthen (say (Text ''CPU Usage: {}%'' [FloatV usage]))
          (andthen (cpu_temperature h)
             (if usage > 85 then
                andthen (penalise 10) (say (Warning HighCpuUsage [FloatV usage]))
              else ret ())))))))))))
          (\<lambda>e. say (Text ''Failed to get CPU information: {}'' [ExnV e])))"

definition get_ram_info :: "host \<Rightarrow> unit stmt" where
  "get_ram_info h =
     andthen (print_section ''Memory (RAM) Information'')
       (catch
          (bind (query (virtual_memory h)) (\<lambda>mem.
           andthen (say (Text ''Total Memory: {} GB'' [FloatV (real_of_int (mem_total mem) / GiB)]))
          (andthen (say (Text ''Used Memory: {} GB'' [FloatV (real_of_int (mem_used mem) / GiB)]))
          (andthen (say (Text ''Memory Usage: {}%'' [FloatV (mem_percent mem)]))
             (if mem_percent mem > 85 then
                andthen (penalise 10) (say (Warning HighRamUsage [FloatV (mem_percent mem)]))
              else ret ())))))
          (\<lambda>e. say (Text ''Failed to get RAM information: {}'' [ExnV e])))"

definition disk_partition :: "host \<Rightarrow> sdiskpart \<Rightarrow> unit stmt" where
  "disk_partition h part =
     catch
       (bind (query (disk_usage h (mountpoint part))) (\<lambda>usage.
        andthen (say (Text ''Drive: {}'' [StrV (device part)]))
       (andthen (say (Text ''  Total Space: {} GB'' [FloatV (real_of_int (du_total usage) / GiB)]))
       (andthen (say (Text ''  Used Space: {} GB'' [FloatV (real_of_int (du_used usage) / GiB)]))
       (andthen (say (Text ''  Free Space: {} GB'' [FloatV (real_of_int (du_free usage) / GiB)]))
       (andthen (say (Text ''  Usage Percentage: {}%'' [FloatV (du_percent usage)]))
          (if du_percent usage > 90 then
             andthen (penalise 10) (say (Warning DriveNearlyFull [FloatV (du_percent usage)]))
           else ret ())))))))
       (\<lambda>e. case e of
          PermissionError \<Rightarrow>
            say (Text ''  Access denied for drive {}.'' [StrV (device part)])
        | _ \<Rightarrow>
            say (Text ''  Failed to get disk information for {}: {}''
                   [StrV (device part), ExnV e]))"

definition get_disk_info :: "host \<Rightarrow> unit stmt" where
  "get_disk_info h =
     andthen (print_section ''Disk Information'')
       (bind (query (disk_partitions h)) (\<lambda>partitions.
          foreach partitions (disk_partition h)))"

text \<open>\<^verbatim>\<open>not battery.power_plugged\<close>: \<^verbatim>\<open>None\<close> is falsy.\<close>

definition plugged :: "sbattery \<Rightarrow> bool" where
  "plugged b = (power_plugged b = Some True)"

definition get_battery_info :: "host \<Rightarrow> unit stmt" where
  "get_battery_info h =
     andthen (print_section ''Battery Information'')
       (bind (query (sensors_battery h)) (\<lambda>battery.
          case battery of
            Some b \<Rightarrow>
              andthen (say (Text ''Charge Level: {}%'' [FloatV (bat_percent b)]))
             (andthen (say (Text ''Status: {}''
                              [StrV (if plugged b then ''Plugged In'' else ''On Battery'')]))
                (if bat_percent b < 30 \<and> \<not> plugged b then
                   andthen (penalise 10) (say (Warning LowBattery []))
                 else ret ()))
          | None \<Rightarrow> say (Text ''Battery information not available.'' [])))"

definition gpu_report :: "gpu \<Rightarrow> unit stmt" where
  "gpu_report g =
     andthen (say (Text ''NVIDIA GPU: {}'' [StrV (gpu_name g)]))
    (andthen (say (Text ''  Total Memory: {} MB'' [FloatV (memoryTotal g)]))
    (andthen (say (Text ''  Used Memory: {} MB'' [FloatV (memoryUsed g)]))
    (andthen (say (Text ''  Temperature: {} C'' [FloatV (temperature g)]))
    (andthen (say (Text ''  Load: {}%'' [FloatV (load g * 100)]))
       (if load g * 100 > 90 \<or> temperature g > 85 then
          andthen (penalise 10) (say (Warning HighGpu []))
        else ret ())))))"

definition video_controller_report :: "video_controller \<Rightarrow> unit stmt" where
  "video_controller_report g =
     bind (query (vc_Name g)) (\<lambda>name.
     andthen (say (Text ''  - {}'' [name]))
    (bind (query (DriverVersion g)) (\<lambda>driver.
       say (Text ''    Driver Version: {}'' [driver]))))"

definition desktop_monitor_report :: "desktop_monitor \<Rightarrow> unit stmt" where
  "desktop_monitor_report d =
     bind (query (dm_Name d)) (\<lambda>name.
     andthen (say (Text ''  - {}'' [name]))
    (bind (query (ScreenWidth d)) (\<lambda>width.
     bind (query (ScreenHeight d)) (\<lambda>height.
       say (Text ''    Resolution: {}x{}'' [width, height])))))"

definition fallback_gpu_detection :: "host \<Rightarrow> unit stmt" where
  "fallback_gpu_detection h =
     catch
       (if platform_system h = ''Windows'' then
          bind (query (WMI h)) (\<lambda>c.
          bind (query (Win32_VideoController c)) (\<lambda>gpu_list.
          bind (query (Win32_DesktopMonitor c)) (\<lambda>display_list.
          andthen
            (if gpu_list \<noteq> [] then
               andthen (say (Text ''Identified Graphics Cards:'' []))
                 (foreach gpu_list video_controller_report)
             else ret ())
         (andthen
            (if display_list \<noteq> [] then
               andthen (say (Text ''Connected Displays:'' []))
                 (foreach display_list desktop_monitor_report)
             else ret ())
            (if gpu_list = [] \<and> display_list = [] then
               say (Text ''No graphics cards or displays identified via WMI.'' [])
             else ret ())))))
        else
          say (Text ''WMI is only available on Windows. No fallback detection available.'' []))
       (\<lambda>e. say (Text ''GPU or display detection via WMI failed. Error: {}'' [ExnV e]))"

definition get_gpu_info :: "host \<Rightarrow> unit stmt" where
  "get_gpu_info h =
     andthen (print_section ''Graphics Card (GPU) Information'')
       (catch
          (bind (query (getGPUs h)) (\<lambda>gpus.
             if gpus \<noteq> [] then foreach gpus gpu_report
             else
               andthen (say (Text ''No NVIDIA GPU found using GPUtil.'' []))
                 (fallback_gpu_detection h)))
          (\<lambda>e.
             andthen (say (Text ''GPUtil failed. Error: {}'' [ExnV e]))
               (fallback_gpu_detection h)))"

definition address_report :: "snicaddr \<Rightarrow> unit stmt" where
  "address_report addr =
     (if family addr = - 1 then say (MacAddress (address addr))
      else if family addr = AF_INET then say (IpAddress (address addr))
      else ret ())"

definition interface_report :: "string \<times> snicaddr list \<Rightarrow> unit stmt" where
  "interface_report = (\<lambda>(interface, addresses).
     andthen (say (Interface interface)) (foreach addresses address_report))"

definition get_network_info :: "host \<Rightarrow> unit stmt" where
  "get_network_info h =
     andthen (print_section ''Network Information'')
       (catch
          (bind (query (net_if_addrs h)) (\<lambda>net. foreach net interface_report))
          (\<lambda>e. say (Text ''Failed to get network information: {}'' [ExnV e])))"

definition get_advanced_hardware_info :: "host \<Rightarrow> unit stmt" where
  "get_advanced_hardware_info h =
     (if platform_system h \<noteq> ''Windows'' then
        andthen (print_section ''Advanced Hardware Information'')
          (say (Text ''This feature is only available for Windows.'' []))
      else
        andthen (print_section ''Advanced Hardware Information'')
          (catch
             (bind (query (WMI h)) (\<lambda>c.
              bind (query (Win32_BaseBoard c)) (\<lambda>boards.
              bind (query (py_index boards 0)) (\<lambda>motherboard_info.
              bind (query (bb_Manufacturer motherboard_info)) (\<lambda>manufacturer.
              andthen (say (Text ''Motherboard Manufacturer: {}'' [manufacturer]))
             (bind (query (Product motherboard_info)) (\<lambda>product.
              andthen (say (Text ''Motherboard Model: {}'' [product]))
             (bind (query (Win32_BIOS c)) (\<lambda>bioses.
              bind (query (py_index bioses 0)) (\<lambda>bios_info.
              bind (query (bios_Manufacturer bios_info)) (\<lambda>bios_manufacturer.
              andthen (say (Text ''BIOS Manufacturer: {}'' [bios_manufacturer]))
             (bind (query (SMBIOSBIOSVersion bios_info)) (\<lambda>bios_version.
                say (Text ''BIOS Version: {}'' [bios_version]))))))))))))))
             (\<lambda>e. say (Text ''Failed to get advanced hardware information: {}'' [ExnV e]))))"

subsection \<open>Upgrade compatibility\<close>

text \<open>
  The \<^verbatim>\<open>upgrade_requirements\<close> dictionary. The keys \<^verbatim>\<open>TPM_2\<close> and \<^verbatim>\<open>SECURE_BOOT\<close> exist for
  Windows 11 only (\<open>None\<close> is an absent key); the source never reads them and tests the
  target's name instead.
\<close>

record requirements =
  CPU_CORES :: int
  CPU_FREQ :: int
  RAM_GB :: int
  DISK_GB :: int
  TPM_2 :: "bool option"
  SECURE_BOOT :: "bool option"

text \<open>
  The first part of \<^verbatim>\<open>check_upgrade_compatibility\<close>, up to the choice of the target:
  \<open>Some (target, requirements)\<close> when a candidate is selected, \<open>None\<close> when the method
  has printed its message and returned. Both \<^verbatim>\<open>int(...)\<close> calls and the index \<^verbatim>\<open>[2]\<close> are
  outside every \<^verbatim>\<open>try\<close>.
\<close>

definition select_target :: "host \<Rightarrow> (string \<times> requirements) option stmt" where
  "select_target h =
     bind (query (py_index (py_split_dot (platform_release h)) 0)) (\<lambda>major_text.
     bind (query (py_int major_text)) (\<lambda>current_version_major.
       if current_version_major = 7 then
         ret (Some (''Windows 8.1'',
           \<lparr>CPU_CORES = 1, CPU_FREQ = 1000, RAM_GB = 2, DISK_GB = 40,
            TPM_2 = None, SECURE_BOOT = None\<rparr>))
       else if current_version_major = 8 then
         ret (Some (''Windows 10'',
           \<lparr>CPU_CORES = 1, CPU_FREQ = 1000, RAM_GB = 2, DISK_GB = 40,
            TPM_2 = None, SECURE_BOOT = None\<rparr>))
       else if current_version_major = 10 then
         bind (query (py_index (py_split_dot (platform_version h)) 2)) (\<lambda>build_text.
         bind (query (py_int build_text)) (\<lambda>build_number.
           if build_number \<ge> 22000 then
             andthen (print_section ''Windows Upgrade Compatibility'')
            (andthen (say AlreadyWindows11)
               (ret None))
           else
             ret (Some (''Windows 11'',
               \<lparr>CPU_CORES = 2, CPU_FREQ = 1000, RAM_GB = 4, DISK_GB = 64,
                TPM_2 = Some True, SECURE_BOOT = Some True\<rparr>))))
       else
         andthen (print_section ''Windows Upgrade Compatibility'')
        (andthen (say (NoUpgradePath (platform_release h)))
           (ret None))))"

text \<open>
  Each block below takes the value of the local variable \<^verbatim>\<open>compatible\<close> and returns its
  new value.
\<close>

definition check_cpu :: "host \<Rightarrow> requirements \<Rightarrow> bool \<Rightarrow> bool stmt" where
  "check_cpu h reqs compatible =
     catch
       (bind (query (cpu_count h)) (\<lambda>cpu_cores.
        bind (query (cpu_freq h)) (\<lambda>freq.
        bind (attr freq freq_current) (\<lambda>cpu_freq.
        andthen (say (Text ''CPU Cores: {} (Required: {}+)''
                        [opt_int cpu_cores, IntV (CPU_CORES reqs)]))
       (andthen (say (Text ''CPU Frequency: {} MHz (Required: {}+ MHz)''
                        [FloatV cpu_freq, IntV (CPU_FREQ reqs)]))
       (bind (less_int cpu_cores (CPU_CORES reqs)) (\<lambda>too_few_cores.
          if too_few_cores \<or> cpu_freq < real_of_int (CPU_FREQ reqs) then
            andthen (say (Failed Processor)) (ret False)
          else
            andthen (say (Passed Processor)) (ret compatible))))))))
       (\<lambda>e. andthen (say (CouldNotCheck ProcessorInfo [])) (ret False))"

definition check_ram :: "host \<Rightarrow> requirements \<Rightarrow> bool \<Rightarrow> bool stmt" where
  "check_ram h reqs compatible =
     catch
       (bind (query (virtual_memory h)) (\<lambda>mem.
        andthen (say (Text ''Total RAM: {} GB (Required: {}+ GB)''
                        [FloatV (real_of_int (mem_total mem) / GiB), IntV (RAM_GB reqs)]))
          (if real_of_int (mem_total mem) / GiB < real_of_int (RAM_GB reqs) then
             andthen (say (Failed Ram)) (ret False)
           else
             andthen (say (Passed Ram)) (ret compatible))))
       (\<lambda>e. andthen (say (CouldNotCheck RamInfo [])) (ret False))"

definition system_drive :: string where
  "system_drive = [CHR ''C'', CHR '':'', CHR 0x5C]"

definition check_storage :: "host \<Rightarrow> requirements \<Rightarrow> bool \<Rightarrow> bool stmt" where
  "check_storage h reqs compatible =
     catch
       (bind (query (disk_usage h system_drive)) (\<lambda>usage.
        andthen (say (Text ''System Drive Storage: {} GB (Required: {}+ GB)''
                        [FloatV (real_of_int (du_total usage) / GiB), IntV (DISK_GB reqs)]))
          (if real_of_int (du_total usage) / GiB < real_of_int (DISK_GB reqs) then
             andthen (say (Failed Storage)) (ret False)
           else
             andthen (say (Passed Storage)) (ret compatible))))
       (\<lambda>e. andthen (say (CouldNotCheck StorageInfo [])) (ret False))"

text \<open>\<^verbatim>\<open>'2.0' in tpm_version if tpm_version else False\<close>\<close>

definition is_tpm_2_0 :: "string option \<Rightarrow> bool" where
  "is_tpm_2_0 tpm_version =
     (case tpm_version of
        None \<Rightarrow> False
      | Some v \<Rightarrow> (if v \<noteq> [] then py_in ''2.0'' v else False))"

definition opt_str :: "string option \<Rightarrow> val" where
  "opt_str a = (case a of None \<Rightarrow> NoneV | Some x \<Rightarrow> StrV x)"

text \<open>Secure Boot and TPM 2.0 are checked inside one \<^verbatim>\<open>try\<close> with one handler.\<close>

definition check_tpm_secure_boot :: "host \<Rightarrow> bool \<Rightarrow> bool stmt" where
  "check_tpm_secure_boot h compatible =
     catch
       (bind (query (WMI h)) (\<lambda>c.
        bind (query (Win32_OperatingSystem c)) (\<lambda>systems.
        bind (query (py_index systems 0)) (\<lambda>os.
        bind (query (os_SecureBoot os)) (\<lambda>secure_boot.
        andthen (say (Text ''Secure Boot: {} (Required: Enabled)''
                        [StrV (if secure_boot then ''Enabled'' else ''Disabled'')]))
       (bind (if \<not> secure_boot then andthen (say (Failed SecureBoot)) (ret False)
              else andthen (say (Passed SecureBoot)) (ret compatible)) (\<lambda>compatible1.
        bind (query (Win32_Tpm c)) (\<lambda>tpms.
        bind (query (py_index tpms 0)) (\<lambda>tpm_status.
        bind (query (SpecVersion tpm_status)) (\<lambda>tpm_version.
        andthen (say (Text ''TPM Version: {} (Required: 2.0)'' [opt_str tpm_version]))
          (if \<not> is_tpm_2_0 tpm_version then
             andthen (say (Failed Tpm2)) (ret False)
           else
             andthen (say (Passed Tpm2)) (ret compatible1))))))))))))
       (\<lambda>e. andthen (say (CouldNotCheck TpmSecureBoot [ExnV e])) (ret False))"

definition rule_line :: line where
  "rule_line = Text (replicate 30 CHR ''='') []"

definition check_upgrade_compatibility :: "host \<Rightarrow> unit stmt" where
  "check_upgrade_compatibility h =
     (if platform_system h \<noteq> ''Windows'' then
        andthen (print_section ''Windows Upgrade Compatibility'')
          (say (Text ''This check is only applicable for Windows operating systems.'' []))
      else
        bind (select_target h) (\<lambda>selected.
          case selected of
            None \<Rightarrow> ret ()
          | Some (upgrade_target, upgrade_requirements) \<Rightarrow>
              andthen (print_section (''Upgrade Compatibility Check for '' @ upgrade_target))
             (bind (check_cpu h upgrade_requirements True) (\<lambda>compatible1.
              bind (check_ram h upgrade_requirements compatible1) (\<lambda>compatible2.
              bind (check_storage h upgrade_requirements compatible2) (\<lambda>compatible3.
              bind (if upgrade_target = ''Windows 11'' then check_tpm_secure_boot h compatible3
                    else ret compatible3) (\<lambda>compatible.
              andthen (say rule_line)
             (andthen (say (Verdict upgrade_target compatible))
                (say rule_line)))))))))"

subsection \<open>The report\<close>

definition show_health_report :: "unit stmt" where
  "show_health_report = (\<lambda>m.
     (andthen (print_section ''System Health Report'')
     (andthen (say (HealthScore
                      (if health_score m \<ge> 80 then GREEN
                       else if health_score m \<ge> 50 then YELLOW else RED)
                      (health_score m)))
        (say (Message
                (if health_score m \<ge> 80 then GoodCondition
                 else if health_score m \<ge> 50 then NeedsAttention else PoorCondition))))) m)"

definition run_all_checks :: "host \<Rightarrow> unit stmt" where
  "run_all_checks h =
     andthen (get_system_info h)
    (andthen (get_last_windows_update h)
    (andthen (get_cpu_info h)
    (andthen (get_ram_info h)
    (andthen (get_disk_info h)
    (andthen (get_battery_info h)
    (andthen (get_gpu_info h)
    (andthen (get_network_info h)
    (andthen (get_advanced_hardware_info h)
    (andthen (check_upgrade_compatibility h)
       show_health_report)))))))))"

text \<open>The script: \<^verbatim>\<open>monitor = SystemHealthMonitor(); monitor.run_all_checks()\<close>.\<close>

definition main :: "host \<Rightarrow> (exn + unit) \<times> monitor" where
  "main h = run_all_checks h init"

section \<open>Vocabulary of the properties\<close>

text \<open>The lines a statement prints when it is run from monitor \<open>m\<close>.\<close>

definition printed :: "'a stmt \<Rightarrow> monitor \<Rightarrow> line list" where
  "printed s m = drop (length (console m)) (console (snd (s m)))"

text \<open>
  The penalty of a threshold breach: 15 points for the CPU temperature, 10 points for
  every other breach. A breach is triggered when its warning is printed.
\<close>

fun penalty :: "breach \<Rightarrow> int" where
  "penalty HighCpuTemperature = 15"
| "penalty HighCpuUsage = 10"
| "penalty HighRamUsage = 10"
| "penalty DriveNearlyFull = 10"
| "penalty LowBattery = 10"
| "penalty HighGpu = 10"

fun line_penalty :: "line \<Rightarrow> int" where
  "line_penalty (Warning b vs) = penalty b"
| "line_penalty l = 0"

definition total_penalty :: "line list \<Rightarrow> int" where
  "total_penalty ls = sum_list (map line_penalty ls)"

fun is_score_line :: "line \<Rightarrow> bool" where
  "is_score_line (HealthScore c n) = True"
| "is_score_line l = False"

text \<open>A line that is neither a warning nor the score of the report.\<close>

fun plain :: "line \<Rightarrow> bool" where
  "plain (Warning b vs) = False"
| "plain (HealthScore c n) = False"
| "plain l = True"

text \<open>
  The monitor's score accounts for the warnings on the console, and the report has not
  been printed yet.
\<close>

definition accounted :: "monitor \<Rightarrow> bool" where
  "accounted m =
     (health_score m = 100 - total_penalty (console m) \<and> \<not> list_ex is_score_line (console m))"

text \<open>A partition that can be read and is more than 90% full.\<close>

definition nearly_full :: "host \<Rightarrow> sdiskpart \<Rightarrow> bool" where
  "nearly_full h p =
     (case disk_usage h (mountpoint p) of Inl e \<Rightarrow> False | Inr u \<Rightarrow> du_percent u > 90)"

text \<open>What the network section shows for one address and for one interface.\<close>

definition address_lines :: "snicaddr \<Rightarrow> line list" where
  "address_lines a =
     (if family a = - 1 then [MacAddress (address a)]
      else if family a = AF_INET then [IpAddress (address a)]
      else [])"

definition interface_lines :: "string \<times> snicaddr list \<Rightarrow> line list" where
  "interface_lines i = Interface (fst i) # concat (map address_lines (snd i))"

text \<open>
  The outcome of each requirement of the upgrade check, read off the host: \<open>Inr True\<close>
  when the requirement is met, \<open>Inr False\<close> when it is not, \<open>Inl e\<close> when a query it
  needs raises \<open>e\<close>.
\<close>

definition processor_outcome :: "host \<Rightarrow> requirements \<Rightarrow> exn + bool" where
  "processor_outcome h reqs =
     (case cpu_count h of
        Inl e \<Rightarrow> Inl e
      | Inr cores \<Rightarrow>
          (case cpu_freq h of
             Inl e \<Rightarrow> Inl e
           | Inr None \<Rightarrow> Inl AttributeError
           | Inr (Some f) \<Rightarrow>
               (case cores of
                  None \<Rightarrow> Inl TypeError
                | Some n \<Rightarrow>
                    Inr (CPU_CORES reqs \<le> n \<and> real_of_int (CPU_FREQ reqs) \<le> freq_current f))))"

definition ram_outcome :: "host \<Rightarrow> requirements \<Rightarrow> exn + bool" where
  "ram_outcome h reqs =
     (case virtual_memory h of
        Inl e \<Rightarrow> Inl e
      | Inr mem \<Rightarrow> Inr (real_of_int (RAM_GB reqs) \<le> real_of_int (mem_total mem) / GiB))"

definition storage_outcome :: "host \<Rightarrow> requirements \<Rightarrow> exn + bool" where
  "storage_outcome h reqs =
     (case disk_usage h system_drive of
        Inl e \<Rightarrow> Inl e
      | Inr usage \<Rightarrow> Inr (real_of_int (DISK_GB reqs) \<le> real_of_int (du_total usage) / GiB))"

definition secure_boot_outcome :: "host \<Rightarrow> exn + bool" where
  "secure_boot_outcome h =
     (case WMI h of
        Inl e \<Rightarrow> Inl e
      | Inr c \<Rightarrow>
          (case Win32_OperatingSystem c of
             Inl e \<Rightarrow> Inl e
           | Inr [] \<Rightarrow> Inl IndexError
           | Inr (os # rest) \<Rightarrow> os_SecureBoot os))"

definition tpm_outcome :: "host \<Rightarrow> exn + bool" where
  "tpm_outcome h =
     (case WMI h of
        Inl e \<Rightarrow> Inl e
      | Inr c \<Rightarrow>
          (case Win32_Tpm c of
             Inl e \<Rightarrow> Inl e
           | Inr [] \<Rightarrow> Inl IndexError
           | Inr (t # rest) \<Rightarrow>
               (case SpecVersion t of Inl e \<Rightarrow> Inl e | Inr v \<Rightarrow> Inr (is_tpm_2_0 v))))"

definition met :: "exn + bool \<Rightarrow> bool" where
  "met outcome = (outcome = Inr True)"

text \<open>The line that reports an outcome of a requirement checked in a \<^verbatim>\<open>try\<close> of its own.\<close>

definition report :: "requirement \<Rightarrow> check_block \<Rightarrow> exn + bool \<Rightarrow> line" where
  "report r b outcome =
     (case outcome of
        Inl e \<Rightarrow> CouldNotCheck b []
      | Inr ok \<Rightarrow> (if ok then Passed r else Failed r))"

text \<open>
  The lines that report Secure Boot and TPM 2.0: the TPM is looked at only when the
  Secure Boot query has returned.
\<close>

definition firmware_reports :: "host \<Rightarrow> line list" where
  "firmware_reports h =
     (case secure_boot_outcome h of
        Inl e \<Rightarrow> [CouldNotCheck TpmSecureBoot [ExnV e]]
      | Inr sb \<Rightarrow>
          [if sb then Passed SecureBoot else Failed SecureBoot,
           case tpm_outcome h of
             Inl e \<Rightarrow> CouldNotCheck TpmSecureBoot [ExnV e]
           | Inr ok \<Rightarrow> (if ok then Passed Tpm2 else Failed Tpm2)])"

definition firmware_met :: "host \<Rightarrow> bool" where
  "firmware_met h = (met (secure_boot_outcome h) \<and> met (tpm_outcome h))"

fun is_report :: "line \<Rightarrow> bool" where
  "is_report (Passed r) = True"
| "is_report (Failed r) = True"
| "is_report (CouldNotCheck b vs) = True"
| "is_report (Verdict t c) = True"
| "is_report l = False"

text \<open>The requirement reports and the verdict among some printed lines, in order.\<close>

definition reports :: "line list \<Rightarrow> line list" where
  "reports ls = filter is_report ls"

section \<open>Example hosts\<close>

text \<open>
  A Windows 10 machine, build 19045, with one logical core at 2000 MHz, 8 GB of RAM, a
  100 GB system drive, Secure Boot enabled and TPM 2.0.
\<close>

definition example_wmi :: wmi where
  "example_wmi =
     \<lparr>Win32_VideoController =
        Inr [\<lparr>vc_Name = Inr (StrV ''Basic Display Adapter''), DriverVersion = Inr (StrV ''10.0'')\<rparr>],
      Win32_DesktopMonitor = Inr [],
      Win32_BaseBoard = Inr [\<lparr>bb_Manufacturer = Inr (StrV ''ACME''), Product = Inr (StrV ''B1'')\<rparr>],
      Win32_BIOS = Inr [\<lparr>bios_Manufacturer = Inr (StrV ''ACME''), SMBIOSBIOSVersion = Inr (StrV ''1.0'')\<rparr>],
      Win32_OperatingSystem = Inr [\<lparr>os_SecureBoot = Inr True\<rparr>],
      Win32_Tpm = Inr [\<lparr>SpecVersion = Inr (Some ''2.0'')\<rparr>]\<rparr>"

definition example_usage :: sdiskusage where
  "example_usage =
     \<lparr>du_total = 100 * 1024 ^ 3, du_used = 40 * 1024 ^ 3, du_free = 60 * 1024 ^ 3,
      du_percent = 40\<rparr>"

definition example_host :: host where
  "example_host =
     \<lparr>platform_system = ''Windows'',
      platform_release = ''10'',
      platform_version = ''10.0.19045'',
      platform_machine = ''AMD64'',
      platform_processor = ''Intel64'',
      platform_node = ''DESKTOP'',
      now = ''2024-01-01 00:00:00'',
      get_hotfix = Inr ''KB5031356'',
      cpu_percent = Inr 12,
      cpu_freq = Inr (Some \<lparr>freq_current = 2000, freq_max = 3000\<rparr>),
      cpu_count = Inr (Some 1),
      has_sensors_temperatures = False,
      sensors_temperatures = Inl AttributeError,
      virtual_memory =
        Inr \<lparr>mem_total = 8 * 1024 ^ 3, mem_used = 2 * 1024 ^ 3, mem_percent = 25\<rparr>,
      disk_partitions = Inr [\<lparr>device = system_drive, mountpoint = system_drive\<rparr>],
      disk_usage = (\<lambda>path. Inr example_usage),
      sensors_battery = Inr None,
      getGPUs = Inr [],
      net_if_addrs =
        Inr [(''Ethernet'',
              [\<lparr>family = - 1, address = ''00-11-22-33-44-55''\<rparr>,
               \<lparr>family = 2, address = ''192.168.1.10''\<rparr>,
               \<lparr>family = 23, address = ''fe80::1''\<rparr>])],
      WMI = Inr example_wmi\<rparr>"

text \<open>The same machine when \<^verbatim>\<open>psutil.sensors_battery()\<close> raises.\<close>

definition battery_fault_host :: host where
  "battery_fault_host = example_host\<lparr>sensors_battery := Inl (OtherError ''OSError'')\<rparr>"

text \<open>The same machine when reading the \<^verbatim>\<open>SecureBoot\<close> property raises.\<close>

definition secure_boot_fault_host :: host where
  "secure_boot_fault_host =
     example_host\<lparr>WMI :=
       Inr (example_wmi\<lparr>Win32_OperatingSystem := Inr [\<lparr>os_SecureBoot = Inl AttributeError\<rparr>]\<rparr>)\<rparr>"

text \<open>The same machine on build 22000.\<close>

definition windows11_host :: host where
  "windows11_host = example_host\<lparr>platform_version := ''10.0.22000''\<rparr>"

text \<open>The same machine with eleven partitions, each 95% full.\<close>

definition full_disks_host :: host where
  "full_disks_host =
     example_host
       \<lparr>disk_partitions := Inr (replicate 11 \<lparr>device = ''D:'', mountpoint = ''D:''\<rparr>),
        disk_usage := (\<lambda>path. Inr (example_usage\<lparr>du_percent := 95\<rparr>))\<rparr>"

text \<open>
  The same machine under load: CPU at 97%, RAM at 91%, a battery at 12% on battery
  power, and one GPU at 88 degrees.
\<close>

definition stressed_host :: host where
  "stressed_host =
     example_host
       \<lparr>cpu_percent := Inr 97,
        virtual_memory :=
          Inr \<lparr>mem_total = 8 * 1024 ^ 3, mem_used = 7 * 1024 ^ 3, mem_percent = 91\<rparr>,
        sensors_battery := Inr (Some \<lparr>bat_percent = 12, power_plugged = Some False\<rparr>),
        getGPUs :=
          Inr [\<lparr>gpu_name = ''GPU'', memoryTotal = 8192, memoryUsed = 1024,
                temperature = 88, load = 0.5\<rparr>]\<rparr>"

section \<open>Vocabulary of the proofs\<close>

text \<open>
  The major version and the build number as \<^verbatim>\<open>check_upgrade_compatibility\<close> reads them off
  \<^verbatim>\<open>platform.release()\<close> and \<^verbatim>\<open>platform.version()\<close>.
\<close>

definition major_version :: "host \<Rightarrow> exn + int" where
  "major_version h =
     (case py_index (py_split_dot (platform_release h)) 0 of
        Inl e \<Rightarrow> Inl e
      | Inr text \<Rightarrow> py_int text)"

definition build_number :: "host \<Rightarrow> exn + int" where
  "build_number h =
     (case py_index (py_split_dot (platform_version h)) 2 of
        Inl e \<Rightarrow> Inl e
      | Inr text \<Rightarrow> py_int text)"

text \<open>
  \<open>preserves I s\<close>: whatever the outcome of \<open>s\<close>, the monitor it leaves behind satisfies
  \<open>I\<close> when the monitor it started from does.
\<close>

definition preserves :: "(monitor \<Rightarrow> bool) \<Rightarrow> 'a stmt \<Rightarrow> bool" where
  "preserves I s = (\<forall>m. I m \<longrightarrow> I (snd (s m)))"

text \<open>\<open>returns s\<close>: \<open>s\<close> never raises.\<close>

definition returns :: "'a stmt \<Rightarrow> bool" where
  "returns s = (\<forall>m. \<exists>a. fst (s m) = Inr a)"

text \<open>
  The state of a run that started from an accounted monitor: after a raise the monitor is
  still accounted (so no report was printed); after a normal return the console ends with
  the report, whose score is 100 minus the penalties of the warnings before it.
\<close>

definition reported :: "(exn + unit) \<times> monitor \<Rightarrow> bool" where
  "reported r =
     (case fst r of
        Inl e \<Rightarrow> accounted (snd r)
      | Inr u \<Rightarrow>
          (\<exists>ls c t. console (snd r) =
               ls @ [Section ''System Health Report'', HealthScore c (health_score (snd r)),
                     Message t]
             \<and> \<not> list_ex is_score_line ls
             \<and> health_score (snd r) = 100 - total_penalty ls))"

section \<open>Reasoning about statements\<close>

lemma preservesD: "preserves I s \<Longrightarrow> I m \<Longrightarrow> I (snd (s m))"
  by (simp add: preserves_def)

lemma returns_unit: "returns s \<Longrightarrow> fst (s m) = Inr ()"
  by (simp add: returns_def)

lemma preserves_ret: "preserves I (ret a)"
  by (simp add: preserves_def ret_def)

lemma preserves_raise: "preserves I (raise e)"
  by (simp add: preserves_def raise_def)

lemma preserves_query: "preserves I (query q)"
  by (simp add: preserves_def query_def)

lemma preserves_bind:
  assumes "preserves I s" and "\<And>a. preserves I (f a)"
  shows "preserves I (bind s f)"
proof (unfold preserves_def, intro allI impI)
  fix m assume m: "I m"
  obtain r m' where sm: "s m = (r, m')" by (cases "s m")
  with assms(1) m have m': "I m'" by (auto dest: preservesD)
  show "I (snd (bind s f m))"
  proof (cases r)
    case (Inl e)
    with sm m' show ?thesis by (simp add: bind_def)
  next
    case (Inr a)
    with preservesD[OF assms(2)[of a] m'] sm show ?thesis by (simp add: bind_def)
  qed
qed

lemma preserves_andthen:
  "preserves I s \<Longrightarrow> preserves I t \<Longrightarrow> preserves I (andthen s t)"
  by (simp add: andthen_def preserves_bind)

lemma preserves_catch:
  assumes "preserves I s" and "\<And>e. preserves I (h e)"
  shows "preserves I (catch s h)"
proof (unfold preserves_def, intro allI impI)
  fix m assume m: "I m"
  obtain r m' where sm: "s m = (r, m')" by (cases "s m")
  with assms(1) m have m': "I m'" by (auto dest: preservesD)
  show "I (snd (catch s h m))"
  proof (cases r)
    case (Inr a)
    with sm m' show ?thesis by (simp add: catch_def)
  next
    case (Inl e)
    with preservesD[OF assms(2)[of e] m'] sm show ?thesis by (simp add: catch_def)
  qed
qed

lemma preserves_foreach:
  "(\<And>x. preserves I (f x)) \<Longrightarrow> preserves I (foreach xs f)"
  by (induction xs) (simp_all add: preserves_ret preserves_andthen)

lemma preserves_attr: "preserves I (attr obj field)"
  by (cases obj) (simp_all add: attr_def preserves_ret preserves_raise)

lemma preserves_less_int: "preserves I (less_int a b)"
  by (cases a) (simp_all add: less_int_def preserves_ret preserves_raise)

lemma preserves_say_then:
  "preserves I (say l) \<Longrightarrow> preserves I t \<Longrightarrow> preserves I (andthen (say l) t)"
  by (rule preserves_andthen)

lemma preserves_if_then:
  "preserves I (if c then s else s') \<Longrightarrow> preserves I t
   \<Longrightarrow> preserves I (andthen (if c then s else s') t)"
  by (rule preserves_andthen)

text \<open>
  The rule for \<open>andthen\<close> is left out of this collection: a penalty and its warning are
  handled as one step.
\<close>

lemmas preserves_intros =
  preserves_ret preserves_raise preserves_query preserves_attr preserves_less_int
  preserves_bind preserves_say_then preserves_if_then preserves_catch preserves_foreach

lemma returns_ret: "returns (ret a)"
  by (simp add: returns_def ret_def)

lemma returns_say: "returns (say l)"
  by (simp add: returns_def say_def)

lemma returns_penalise: "returns (penalise k)"
  by (simp add: returns_def penalise_def)

lemma returns_query: "returns (query (Inr v))"
  by (simp add: returns_def query_def)

lemma returns_bind:
  assumes "returns s" and "\<And>a. returns (f a)"
  shows "returns (bind s f)"
proof (unfold returns_def, rule allI)
  fix m
  from assms(1) obtain a where "fst (s m) = Inr a" by (auto simp: returns_def)
  then obtain m' where "s m = (Inr a, m')" by (cases "s m") simp
  moreover from assms(2)[of a] obtain b where "fst (f a m') = Inr b" by (auto simp: returns_def)
  ultimately show "\<exists>b. fst (bind s f m) = Inr b" by (simp add: bind_def)
qed

lemma returns_andthen: "returns s \<Longrightarrow> returns t \<Longrightarrow> returns (andthen s t)"
  by (simp add: andthen_def returns_bind)

lemma returns_catch:
  assumes "\<And>e. returns (h e)"
  shows "returns (catch s h)"
proof (unfold returns_def, rule allI)
  fix m
  obtain r m' where sm: "s m = (r, m')" by (cases "s m")
  show "\<exists>a. fst (catch s h m) = Inr a"
  proof (cases r)
    case (Inr a)
    with sm show ?thesis by (simp add: catch_def)
  next
    case (Inl e)
    from assms[of e] obtain a where "fst (h e m') = Inr a" by (auto simp: returns_def)
    with Inl sm show ?thesis by (simp add: catch_def)
  qed
qed

lemma returns_foreach: "(\<And>x. returns (f x)) \<Longrightarrow> returns (foreach xs f)"
  by (induction xs) (simp_all add: returns_ret returns_andthen)

lemmas returns_intros =
  returns_ret returns_say returns_penalise returns_query returns_andthen returns_catch
  returns_foreach

text \<open>Sequencing on a given monitor.\<close>

lemma andthen_returned: "fst (s m) = Inr a \<Longrightarrow> andthen s t m = t (snd (s m))"
  by (cases "s m") (simp add: andthen_def bind_def)

lemma andthen_raised: "fst (s m) = Inl e \<Longrightarrow> andthen s t m = (Inl e, snd (s m))"
  by (cases "s m") (simp add: andthen_def bind_def)

section \<open>Every method keeps an invariant that its prints and penalties keep\<close>

lemma get_system_info_preserves:
  assumes say: "\<And>l. plain l \<Longrightarrow> preserves I (say l)"
  shows "preserves I (get_system_info h)"
  unfolding get_system_info_def print_section_def
  by (intro preserves_intros say) (simp_all add: split_def say)

lemma get_last_windows_update_preserves:
  assumes say: "\<And>l. plain l \<Longrightarrow> preserves I (say l)"
  shows "preserves I (get_last_windows_update h)"
  unfolding get_last_windows_update_def print_section_def
  by (auto intro!: preserves_intros say split: exn.splits)

lemma cpu_temperature_preserves:
  assumes say: "\<And>l. plain l \<Longrightarrow> preserves I (say l)"
    and pen: "\<And>b vs. preserves I (andthen (penalise (penalty b)) (say (Warning b vs)))"
  shows "preserves I (cpu_temperature h)"
  unfolding cpu_temperature_def
  by (auto intro!: preserves_intros say pen[of HighCpuTemperature, simplified] split: option.splits)

lemma get_cpu_info_preserves:
  assumes say: "\<And>l. plain l \<Longrightarrow> preserves I (say l)"
    and pen: "\<And>b vs. preserves I (andthen (penalise (penalty b)) (say (Warning b vs)))"
  shows "preserves I (get_cpu_info h)"
proof -
  have temp: "preserves I (cpu_temperature h)"
    by (rule cpu_temperature_preserves[of I, OF say pen])
  show ?thesis
    unfolding get_cpu_info_def print_section_def
    by (auto intro!: preserves_intros say pen[of HighCpuUsage, simplified]
          preserves_andthen[OF temp])
qed

lemma get_ram_info_preserves:
  assumes say: "\<And>l. plain l \<Longrightarrow> preserves I (say l)"
    and pen: "\<And>b vs. preserves I (andthen (penalise (penalty b)) (say (Warning b vs)))"
  shows "preserves I (get_ram_info h)"
  unfolding get_ram_info_def print_section_def
  by (auto intro!: preserves_intros say pen[of HighRamUsage, simplified])

lemma disk_partition_preserves:
  assumes say: "\<And>l. plain l \<Longrightarrow> preserves I (say l)"
    and pen: "\<And>b vs. preserves I (andthen (penalise (penalty b)) (say (Warning b vs)))"
  shows "preserves I (disk_partition h p)"
  unfolding disk_partition_def
  by (auto intro!: preserves_intros say pen[of DriveNearlyFull, simplified] split: exn.splits)

lemma get_disk_info_preserves:
  assumes say: "\<And>l. plain l \<Longrightarrow> preserves I (say l)"
    and pen: "\<And>b vs. preserves I (andthen (penalise (penalty b)) (say (Warning b vs)))"
  shows "preserves I (get_disk_info h)"
  unfolding get_disk_info_def print_section_def
  by (auto intro!: preserves_intros say disk_partition_preserves pen)

lemma get_battery_info_preserves:
  assumes say: "\<And>l. plain l \<Longrightarrow> preserves I (say l)"
    and pen: "\<And>b vs. preserves I (andthen (penalise (penalty b)) (say (Warning b vs)))"
  shows "preserves I (get_battery_info h)"
  unfolding get_battery_info_def print_section_def
  by (auto intro!: preserves_intros say pen[of LowBattery, simplified] split: option.splits)

lemma gpu_report_preserves:
  assumes say: "\<And>l. plain l \<Longrightarrow> preserves I (say l)"
    and pen: "\<And>b vs. preserves I (andthen (penalise (penalty b)) (say (Warning b vs)))"
  shows "preserves I (gpu_report g)"
  unfolding gpu_report_def
  by (auto intro!: preserves_intros say pen[of HighGpu, simplified])

lemma fallback_gpu_detection_preserves:
  assumes say: "\<And>l. plain l \<Longrightarrow> preserves I (say l)"
  shows "preserves I (fallback_gpu_detection h)"
  unfolding fallback_gpu_detection_def video_controller_report_def desktop_monitor_report_def
  by (auto intro!: preserves_intros say)

lemma get_gpu_info_preserves:
  assumes say: "\<And>l. plain l \<Longrightarrow> preserves I (say l)"
    and pen: "\<And>b vs. preserves I (andthen (penalise (penalty b)) (say (Warning b vs)))"
  shows "preserves I (get_gpu_info h)"
  unfolding get_gpu_info_def print_section_def
  by (auto intro!: preserves_intros say gpu_report_preserves pen fallback_gpu_detection_preserves)

lemma get_network_info_preserves:
  assumes say: "\<And>l. plain l \<Longrightarrow> preserves I (say l)"
  shows "preserves I (get_network_info h)"
  unfolding get_network_info_def print_section_def interface_report_def address_report_def
  by (auto intro!: preserves_intros say simp: split_def)

lemma get_advanced_hardware_info_preserves:
  assumes say: "\<And>l. plain l \<Longrightarrow> preserves I (say l)"
  shows "preserves I (get_advanced_hardware_info h)"
  unfolding get_advanced_hardware_info_def print_section_def
  by (auto intro!: preserves_intros say)

lemma select_target_preserves:
  assumes say: "\<And>l. plain l \<Longrightarrow> preserves I (say l)"
  shows "preserves I (select_target h)"
  unfolding select_target_def print_section_def
  by (auto intro!: preserves_intros say)

lemma check_cpu_preserves:
  assumes say: "\<And>l. plain l \<Longrightarrow> preserves I (say l)"
  shows "preserves I (check_cpu h reqs c)"
  unfolding check_cpu_def
  by (auto intro!: preserves_intros say)

lemma check_ram_preserves:
  assumes say: "\<And>l. plain l \<Longrightarrow> preserves I (say l)"
  shows "preserves I (check_ram h reqs c)"
  unfolding check_ram_def
  by (auto intro!: preserves_intros say)

lemma check_storage_preserves:
  assumes say: "\<And>l. plain l \<Longrightarrow> preserves I (say l)"
  shows "preserves I (check_storage h reqs c)"
  unfolding check_storage_def
  by (auto intro!: preserves_intros say)

lemma check_tpm_secure_boot_preserves:
  assumes say: "\<And>l. plain l \<Longrightarrow> preserves I (say l)"
  shows "preserves I (check_tpm_secure_boot h c)"
  unfolding check_tpm_secure_boot_def
  by (auto intro!: preserves_intros say)

lemma check_upgrade_compatibility_preserves:
  assumes say: "\<And>l. plain l \<Longrightarrow> preserves I (say l)"
  shows "preserves I (check_upgrade_compatibility h)"
  unfolding check_upgrade_compatibility_def print_section_def rule_line_def
  by (auto intro!: preserves_intros say select_target_preserves check_cpu_preserves
        check_ram_preserves check_storage_preserves check_tpm_secure_boot_preserves
      split: option.splits)

section \<open>Which methods can raise\<close>

lemma get_system_info_returns: "returns (get_system_info h)"
  unfolding get_system_info_def print_section_def
  by (intro returns_intros) (simp add: split_def returns_say)

lemma get_last_windows_update_returns: "returns (get_last_windows_update h)"
  unfolding get_last_windows_update_def print_section_def
  by (auto intro!: returns_intros split: exn.splits)

lemma get_cpu_info_returns: "returns (get_cpu_info h)"
  unfolding get_cpu_info_def print_section_def
  by (intro returns_intros)

lemma get_ram_info_returns: "returns (get_ram_info h)"
  unfolding get_ram_info_def print_section_def
  by (intro returns_intros)

lemma disk_partition_returns: "returns (disk_partition h p)"
  unfolding disk_partition_def
  by (auto intro!: returns_intros split: exn.splits)

lemma get_disk_info_returns:
  "disk_partitions h = Inr ps \<Longrightarrow> returns (get_disk_info h)"
  unfolding get_disk_info_def print_section_def
  by (auto intro!: returns_intros returns_bind disk_partition_returns)

lemma get_disk_info_raises:
  "disk_partitions h = Inl e \<Longrightarrow>
   get_disk_info h m = (Inl e, m\<lparr>console := console m @ [Section ''Disk Information'']\<rparr>)"
  by (simp add: get_disk_info_def print_section_def andthen_def bind_def say_def query_def)

lemma get_battery_info_returns:
  "sensors_battery h = Inr b \<Longrightarrow> returns (get_battery_info h)"
  unfolding get_battery_info_def print_section_def
  by (auto intro!: returns_intros returns_bind split: option.splits)

lemma get_battery_info_raises:
  "sensors_battery h = Inl e \<Longrightarrow>
   get_battery_info h m = (Inl e, m\<lparr>console := console m @ [Section ''Battery Information'']\<rparr>)"
  by (simp add: get_battery_info_def print_section_def andthen_def bind_def say_def query_def)

lemma fallback_gpu_detection_returns: "returns (fallback_gpu_detection h)"
  unfolding fallback_gpu_detection_def
  by (intro returns_intros)

lemma get_gpu_info_returns: "returns (get_gpu_info h)"
  unfolding get_gpu_info_def print_section_def
  by (intro returns_intros fallback_gpu_detection_returns)

lemma get_network_info_returns: "returns (get_network_info h)"
  unfolding get_network_info_def print_section_def
  by (intro returns_intros)

lemma get_advanced_hardware_info_returns: "returns (get_advanced_hardware_info h)"
  unfolding get_advanced_hardware_info_def print_section_def
  by (auto intro!: returns_intros)

lemma check_cpu_returns: "returns (check_cpu h reqs c)"
  unfolding check_cpu_def by (intro returns_intros)

lemma check_ram_returns: "returns (check_ram h reqs c)"
  unfolding check_ram_def by (intro returns_intros)

lemma check_storage_returns: "returns (check_storage h reqs c)"
  unfolding check_storage_def by (intro returns_intros)

lemma check_tpm_secure_boot_returns: "returns (check_tpm_secure_boot h c)"
  unfolding check_tpm_secure_boot_def by (intro returns_intros)

lemma check_upgrade_compatibility_returns:
  assumes "platform_system h \<noteq> ''Windows'' \<or> returns (select_target h)"
  shows "returns (check_upgrade_compatibility h)"
  using assms unfolding check_upgrade_compatibility_def print_section_def rule_line_def
  by (auto intro!: returns_intros returns_bind check_cpu_returns check_ram_returns
        check_storage_returns check_tpm_secure_boot_returns split: option.splits)

lemma show_health_report_returns: "returns show_health_report"
  by (simp add: returns_def show_health_report_def andthen_def bind_def say_def print_section_def)

section \<open>The score\<close>

lemma say_keeps_score: "preserves (\<lambda>m. health_score m = k) (say l)"
  by (simp add: preserves_def say_def)

lemma say_lowers_score: "preserves (\<lambda>m. health_score m \<le> k) (say l)"
  by (simp add: preserves_def say_def)

lemma penalty_nonneg: "0 \<le> penalty b"
  by (cases b) simp_all

lemma warning_lowers_score:
  "preserves (\<lambda>m. health_score m \<le> k) (andthen (penalise (penalty b)) (say (Warning b vs)))"
  using penalty_nonneg[of b]
  by (simp add: preserves_def andthen_def bind_def penalise_def say_def)

lemma total_penalty_append: "total_penalty (xs @ ys) = total_penalty xs + total_penalty ys"
  by (simp add: total_penalty_def)

lemma plain_line: "plain l \<Longrightarrow> line_penalty l = 0 \<and> \<not> is_score_line l"
  by (cases l) simp_all

lemma say_accounted: "plain l \<Longrightarrow> preserves accounted (say l)"
  by (auto simp: preserves_def say_def accounted_def total_penalty_def dest: plain_line)

lemma warning_accounted:
  "preserves accounted (andthen (penalise (penalty b)) (say (Warning b vs)))"
  by (simp add: preserves_def andthen_def bind_def penalise_def say_def accounted_def
        total_penalty_def)

lemma keeps_score:
  assumes "\<And>k. preserves (\<lambda>m. health_score m = k) s"
  shows "health_score (snd (s m)) = health_score m"
  using preservesD[OF assms[of "health_score m"], of m] by simp

lemma lowers_score:
  assumes "\<And>k. preserves (\<lambda>m. health_score m \<le> k) s"
  shows "health_score (snd (s m)) \<le> health_score m"
  using preservesD[OF assms[of "health_score m"], of m] by simp

lemma show_health_report_console:
  "show_health_report m =
     (Inr (), m\<lparr>console := console m @
        [Section ''System Health Report'',
         HealthScore (if 80 \<le> health_score m then GREEN
                      else if 50 \<le> health_score m then YELLOW else RED) (health_score m),
         Message (if 80 \<le> health_score m then GoodCondition
                  else if 50 \<le> health_score m then NeedsAttention else PoorCondition)]\<rparr>)"
  by (simp add: show_health_report_def andthen_def bind_def say_def print_section_def)

lemma show_health_report_score: "health_score (snd (show_health_report m)) = health_score m"
  by (simp add: show_health_report_console)

lemmas informational_score =
  keeps_score[OF get_system_info_preserves[OF say_keeps_score]]
  keeps_score[OF get_last_windows_update_preserves[OF say_keeps_score]]
  keeps_score[OF get_network_info_preserves[OF say_keeps_score]]
  keeps_score[OF get_advanced_hardware_info_preserves[OF say_keeps_score]]
  keeps_score[OF fallback_gpu_detection_preserves[OF say_keeps_score]]
  keeps_score[OF check_upgrade_compatibility_preserves[OF say_keeps_score]]

lemma run_all_checks_lowers:
  "preserves (\<lambda>m. health_score m \<le> k) (run_all_checks h)"
  unfolding run_all_checks_def
  by (intro preserves_andthen
        get_system_info_preserves get_last_windows_update_preserves get_cpu_info_preserves
        get_ram_info_preserves get_disk_info_preserves get_battery_info_preserves
        get_gpu_info_preserves get_network_info_preserves get_advanced_hardware_info_preserves
        check_upgrade_compatibility_preserves say_lowers_score warning_lowers_score)
     (simp add: preserves_def show_health_report_score)

lemma reported_andthen:
  assumes s: "preserves accounted s" and t: "\<And>m. accounted m \<Longrightarrow> reported (t m)"
  shows "accounted m \<Longrightarrow> reported (andthen s t m)"
proof -
  assume m: "accounted m"
  obtain r m' where sm: "s m = (r, m')" by (cases "s m")
  with preservesD[OF s m] have m': "accounted m'" by simp
  show ?thesis
  proof (cases r)
    case (Inl e)
    with sm m' show ?thesis by (simp add: andthen_def bind_def reported_def)
  next
    case (Inr a)
    with sm t[OF m'] show ?thesis by (simp add: andthen_def bind_def)
  qed
qed

lemma reported_show_health_report: "accounted m \<Longrightarrow> reported (show_health_report m)"
  by (simp add: reported_def show_health_report_console accounted_def)

lemma accounted_init: "accounted init"
  by (simp add: accounted_def init_def total_penalty_def)

lemma reported_main: "reported (main h)"
  unfolding main_def run_all_checks_def
  by (intro reported_andthen reported_show_health_report accounted_init
        get_system_info_preserves get_last_windows_update_preserves get_cpu_info_preserves
        get_ram_info_preserves get_disk_info_preserves get_battery_info_preserves
        get_gpu_info_preserves get_network_info_preserves get_advanced_hardware_info_preserves
        check_upgrade_compatibility_preserves say_accounted warning_accounted)

lemma total_penalty_nonneg: "0 \<le> total_penalty ls"
  unfolding total_penalty_def
proof (induction ls)
  case Nil
  show ?case by simp
next
  case (Cons l ls)
  have "0 \<le> line_penalty l" by (cases l) (simp_all add: penalty_nonneg)
  with Cons show ?case by simp
qed

lemma no_score_line: "\<not> list_ex is_score_line ls \<Longrightarrow> HealthScore c n \<notin> set ls"
  by (auto simp: list_ex_iff)

lemma andthen_returns: "returns s \<Longrightarrow> andthen s t m = t (snd (s m))"
  using andthen_returned[of s m] by (auto simp: returns_def)

lemma main_reaches_report:
  assumes "returns (get_disk_info h)" and "returns (get_battery_info h)"
    and "returns (check_upgrade_compatibility h)"
    and cpu: "\<And>m. health_score (snd (get_cpu_info h m)) = health_score m - c"
    and ram: "\<And>m. health_score (snd (get_ram_info h m)) = health_score m - r"
    and disk: "\<And>m. health_score (snd (get_disk_info h m)) = health_score m - d"
    and battery: "\<And>m. health_score (snd (get_battery_info h m)) = health_score m - b"
    and gpu: "\<And>m. health_score (snd (get_gpu_info h m)) = health_score m - g"
  shows "\<exists>m. main h = show_health_report m \<and> health_score m = 100 - (c + r + d + b + g)"
proof -
  let ?m = "snd (check_upgrade_compatibility h
             (snd (get_advanced_hardware_info h
             (snd (get_network_info h
             (snd (get_gpu_info h
             (snd (get_battery_info h
             (snd (get_disk_info h
             (snd (get_ram_info h
             (snd (get_cpu_info h
             (snd (get_last_windows_update h
             (snd (get_system_info h init)))))))))))))))))))"
  have "main h = show_health_report ?m"
    unfolding main_def run_all_checks_def
    by (simp add: andthen_returns assms(1-3) get_system_info_returns
          get_last_windows_update_returns get_cpu_info_returns get_ram_info_returns
          get_gpu_info_returns get_network_info_returns get_advanced_hardware_info_returns)
  moreover have "health_score ?m = 100 - (c + r + d + b + g)"
    by (simp add: informational_score cpu ram disk battery gpu init_def)
  ultimately show ?thesis by blast
qed

lemma main_raises_at_disk:
  assumes "disk_partitions h = Inl e"
  shows "fst (main h) = Inl e"
  unfolding main_def run_all_checks_def
  by (simp add: andthen_returns get_system_info_returns get_last_windows_update_returns
        get_cpu_info_returns get_ram_info_returns andthen_raised get_disk_info_raises[OF assms])

lemma main_raises_at_battery:
  assumes "returns (get_disk_info h)" and "sensors_battery h = Inl e"
  shows "fst (main h) = Inl e"
  unfolding main_def run_all_checks_def
  by (simp add: andthen_returns get_system_info_returns get_last_windows_update_returns
        get_cpu_info_returns get_ram_info_returns assms(1) andthen_raised
        get_battery_info_raises[OF assms(2)])

lemma main_raised_no_report:
  assumes "fst (main h) = Inl e"
  shows "\<not> list_ex is_score_line (console (snd (main h)))"
  using reported_main[of h] assms by (simp add: reported_def accounted_def)

section \<open>What a statement prints\<close>

lemma printed_append:
  "snd (s m) = m\<lparr>console := console m @ ls\<rparr> \<Longrightarrow> printed s m = ls"
  by (simp add: printed_def)

section \<open>Disk\<close>

lemma disk_partition_score:
  "health_score (snd (disk_partition h p m)) =
     health_score m - (if nearly_full h p then 10 else 0)"
  by (cases "disk_usage h (mountpoint p)")
     (simp_all add: disk_partition_def nearly_full_def catch_def bind_def andthen_def query_def
        say_def penalise_def ret_def split: exn.splits)

lemma foreach_disk_partition_score:
  "health_score (snd (foreach ps (disk_partition h) m)) =
     health_score m - 10 * int (length (filter (nearly_full h) ps))"
proof (induction ps arbitrary: m)
  case Nil
  show ?case by (simp add: ret_def)
next
  case (Cons p ps)
  show ?case
    by (simp add: andthen_returns[OF disk_partition_returns] Cons.IH disk_partition_score)
qed

lemma get_disk_info_score:
  assumes "disk_partitions h = Inr ps"
  shows "health_score (snd (get_disk_info h m)) =
           health_score m - 10 * int (length (filter (nearly_full h) ps))"
  using assms
  by (simp add: get_disk_info_def print_section_def andthen_def bind_def say_def query_def
        foreach_disk_partition_score)

section \<open>Battery\<close>

lemma get_battery_info_present:
  assumes "sensors_battery h = Inr (Some b)"
  shows "get_battery_info h m =
     (Inr (),
      m\<lparr>health_score := health_score m - (if bat_percent b < 30 \<and> \<not> plugged b then 10 else 0),
        console := console m @
          [Section ''Battery Information'',
           Text ''Charge Level: {}%'' [FloatV (bat_percent b)],
           Text ''Status: {}'' [StrV (if plugged b then ''Plugged In'' else ''On Battery'')]] @
          (if bat_percent b < 30 \<and> \<not> plugged b then [Warning LowBattery []] else [])\<rparr>)"
  using assms
  by (simp add: get_battery_info_def print_section_def andthen_def bind_def say_def query_def
        penalise_def ret_def)

section \<open>Network\<close>

lemma address_report_console:
  "address_report a m = (Inr (), m\<lparr>console := console m @ address_lines a\<rparr>)"
  by (simp add: address_report_def address_lines_def say_def ret_def)

lemma foreach_address_report:
  "foreach addrs address_report m =
     (Inr (), m\<lparr>console := console m @ concat (map address_lines addrs)\<rparr>)"
proof (induction addrs arbitrary: m)
  case Nil
  show ?case by (simp add: ret_def)
next
  case (Cons a addrs)
  have step: "address_report a m = (Inr (), m\<lparr>console := console m @ address_lines a\<rparr>)"
    by (rule address_report_console)
  show ?case
    by (simp add: andthen_def bind_def step Cons.IH)
qed

lemma interface_report_console:
  "interface_report i m = (Inr (), m\<lparr>console := console m @ interface_lines i\<rparr>)"
  by (cases i)
     (simp add: interface_report_def interface_lines_def andthen_def bind_def say_def
        foreach_address_report)

lemma foreach_interface_report:
  "foreach net interface_report m =
     (Inr (), m\<lparr>console := console m @ concat (map interface_lines net)\<rparr>)"
proof (induction net arbitrary: m)
  case Nil
  show ?case by (simp add: ret_def)
next
  case (Cons i net)
  have step: "interface_report i m = (Inr (), m\<lparr>console := console m @ interface_lines i\<rparr>)"
    by (rule interface_report_console)
  show ?case
    by (simp add: andthen_def bind_def step Cons.IH)
qed

lemma get_network_info_console:
  assumes "net_if_addrs h = Inr net"
  shows "get_network_info h m =
     (Inr (), m\<lparr>console := console m @
        Section ''Network Information'' # concat (map interface_lines net)\<rparr>)"
  using assms
  by (simp add: get_network_info_def print_section_def andthen_def bind_def catch_def
        say_def query_def foreach_interface_report)

section \<open>Upgrade compatibility\<close>

lemmas run_defs =
  catch_def bind_def andthen_def query_def say_def ret_def raise_def attr_def less_int_def
  penalise_def print_section_def

lemma select_target_by_version:
  "select_target h m =
     (case major_version h of
        Inl e \<Rightarrow> (Inl e, m)
      | Inr v \<Rightarrow>
          if v = 7 then
            (Inr (Some (''Windows 8.1'',
               \<lparr>CPU_CORES = 1, CPU_FREQ = 1000, RAM_GB = 2, DISK_GB = 40,
                TPM_2 = None, SECURE_BOOT = None\<rparr>)), m)
          else if v = 8 then
            (Inr (Some (''Windows 10'',
               \<lparr>CPU_CORES = 1, CPU_FREQ = 1000, RAM_GB = 2, DISK_GB = 40,
                TPM_2 = None, SECURE_BOOT = None\<rparr>)), m)
          else if v = 10 then
            (case build_number h of
               Inl e \<Rightarrow> (Inl e, m)
             | Inr n \<Rightarrow>
                 if 22000 \<le> n then
                   (Inr None, m\<lparr>console := console m @
                      [Section ''Windows Upgrade Compatibility'', AlreadyWindows11]\<rparr>)
                 else
                   (Inr (Some (''Windows 11'',
                      \<lparr>CPU_CORES = 2, CPU_FREQ = 1000, RAM_GB = 4, DISK_GB = 64,
                       TPM_2 = Some True, SECURE_BOOT = Some True\<rparr>)), m))
          else
            (Inr None, m\<lparr>console := console m @
               [Section ''Windows Upgrade Compatibility'',
                NoUpgradePath (platform_release h)]\<rparr>))"
  by (simp add: select_target_def major_version_def build_number_def run_defs
        split: sum.splits)

lemma select_target_selected:
  assumes "fst (select_target h m) = Inr (Some x)"
  shows "select_target h m = (Inr (Some x), m)"
  using assms by (simp add: select_target_by_version split: sum.splits if_splits)

lemma select_target_windows11:
  assumes "major_version h = Inr 10" and "build_number h = Inr n" and "22000 \<le> n"
  shows "select_target h m =
     (Inr None, m\<lparr>console := console m @
        [Section ''Windows Upgrade Compatibility'', AlreadyWindows11]\<rparr>)"
  using assms by (simp add: select_target_by_version)

lemma check_cpu_reports:
  "check_cpu h reqs c m =
     (Inr (c \<and> met (processor_outcome h reqs)),
      m\<lparr>console := console m @ printed (check_cpu h reqs c) m\<rparr>)
   \<and> reports (printed (check_cpu h reqs c) m) =
       [report Processor ProcessorInfo (processor_outcome h reqs)]"
proof (cases "cpu_count h")
  case (Inl e)
  then show ?thesis
    by (simp add: check_cpu_def processor_outcome_def met_def report_def reports_def
          printed_def run_defs)
next
  case cores: (Inr cores)
  show ?thesis
  proof (cases "cpu_freq h")
    case (Inl e)
    with cores show ?thesis
      by (simp add: check_cpu_def processor_outcome_def met_def report_def reports_def
            printed_def run_defs)
  next
    case freq: (Inr freq)
    show ?thesis
    proof (cases freq)
      case None
      with cores freq show ?thesis
        by (simp add: check_cpu_def processor_outcome_def met_def report_def reports_def
              printed_def run_defs)
    next
      case (Some f)
      with cores freq show ?thesis
        by (cases cores)
           (auto simp: check_cpu_def processor_outcome_def met_def report_def reports_def
              printed_def run_defs)
    qed
  qed
qed

lemma check_ram_reports:
  "check_ram h reqs c m =
     (Inr (c \<and> met (ram_outcome h reqs)),
      m\<lparr>console := console m @ printed (check_ram h reqs c) m\<rparr>)
   \<and> reports (printed (check_ram h reqs c) m) = [report Ram RamInfo (ram_outcome h reqs)]"
  by (cases "virtual_memory h")
     (auto simp: check_ram_def ram_outcome_def met_def report_def reports_def printed_def
        run_defs)

lemma check_storage_reports:
  "check_storage h reqs c m =
     (Inr (c \<and> met (storage_outcome h reqs)),
      m\<lparr>console := console m @ printed (check_storage h reqs c) m\<rparr>)
   \<and> reports (printed (check_storage h reqs c) m) =
       [report Storage StorageInfo (storage_outcome h reqs)]"
  by (cases "disk_usage h system_drive")
     (auto simp: check_storage_def storage_outcome_def met_def report_def reports_def
        printed_def run_defs)

lemmas firmware_defs =
  check_tpm_secure_boot_def secure_boot_outcome_def tpm_outcome_def firmware_met_def
  firmware_reports_def met_def reports_def printed_def py_index_def run_defs

lemma check_tpm_secure_boot_reports:
  "check_tpm_secure_boot h c m =
     (Inr (c \<and> firmware_met h),
      m\<lparr>console := console m @ printed (check_tpm_secure_boot h c) m\<rparr>)
   \<and> reports (printed (check_tpm_secure_boot h c) m) = firmware_reports h"
proof (cases "WMI h")
  case (Inl e)
  then show ?thesis by (simp add: firmware_defs)
next
  case wmi: (Inr w)
  show ?thesis
  proof (cases "Win32_OperatingSystem w")
    case (Inl e)
    with wmi show ?thesis by (simp add: firmware_defs)
  next
    case systems: (Inr systems)
    show ?thesis
    proof (cases systems)
      case Nil
      with wmi systems show ?thesis by (simp add: firmware_defs)
    next
      case (Cons os rest)
      show ?thesis
      proof (cases "os_SecureBoot os")
        case (Inl e)
        with wmi systems Cons show ?thesis by (simp add: firmware_defs)
      next
        case sb: (Inr sb)
        show ?thesis
        proof (cases "Win32_Tpm w")
          case (Inl e)
          with wmi systems Cons sb show ?thesis by (simp add: firmware_defs)
        next
          case tpms: (Inr tpms)
          show ?thesis
          proof (cases tpms)
            case Nil
            with wmi systems Cons sb tpms show ?thesis by (simp add: firmware_defs)
          next
            case tpm: (Cons t rest')
            show ?thesis
            proof (cases "SpecVersion t")
              case (Inl e)
              with wmi systems Cons sb tpms tpm show ?thesis by (simp add: firmware_defs)
            next
              case (Inr v)
              with wmi systems Cons sb tpms tpm show ?thesis
                by (auto simp: firmware_defs)
            qed
          qed
        qed
      qed
    qed
  qed
qed

lemma reports_append: "reports (xs @ ys) = reports xs @ reports ys"
  by (simp add: reports_def)

lemma bind_returned:
  "s m = (Inr a, m') \<Longrightarrow> f a m' = r \<Longrightarrow> bind s f m = r"
  by (simp add: bind_def)

lemma andthen_said:
  "t (m\<lparr>console := console m @ [l]\<rparr>) = r \<Longrightarrow> andthen (say l) t m = r"
  by (simp add: andthen_def bind_def say_def)

lemma upgrade_reports:
  assumes win: "platform_system h = ''Windows''"
    and sel: "fst (select_target h m) = Inr (Some (target, reqs))"
  shows "fst (check_upgrade_compatibility h m) = Inr ()
    \<and> reports (printed (check_upgrade_compatibility h) m) =
        [report Processor ProcessorInfo (processor_outcome h reqs),
         report Ram RamInfo (ram_outcome h reqs),
         report Storage StorageInfo (storage_outcome h reqs)]
        @ (if target = ''Windows 11'' then firmware_reports h else [])
        @ [Verdict target
             (met (processor_outcome h reqs) \<and> met (ram_outcome h reqs)
              \<and> met (storage_outcome h reqs)
              \<and> (target \<noteq> ''Windows 11'' \<or> firmware_met h))]"
proof -
  let ?title = "Section (''Upgrade Compatibility Check for '' @ target)"
  let ?m0 = "m\<lparr>console := console m @ [?title]\<rparr>"
  let ?c1 = "True \<and> met (processor_outcome h reqs)"
  obtain l1 where 1: "check_cpu h reqs True ?m0 = (Inr ?c1, ?m0\<lparr>console := console ?m0 @ l1\<rparr>)"
    and r1: "reports l1 = [report Processor ProcessorInfo (processor_outcome h reqs)]"
    using check_cpu_reports[of h reqs True ?m0] by blast
  let ?m1 = "?m0\<lparr>console := console ?m0 @ l1\<rparr>"
  let ?c2 = "?c1 \<and> met (ram_outcome h reqs)"
  obtain l2 where 2: "check_ram h reqs ?c1 ?m1 = (Inr ?c2, ?m1\<lparr>console := console ?m1 @ l2\<rparr>)"
    and r2: "reports l2 = [report Ram RamInfo (ram_outcome h reqs)]"
    using check_ram_reports[of h reqs ?c1 ?m1] by blast
  let ?m2 = "?m1\<lparr>console := console ?m1 @ l2\<rparr>"
  let ?c3 = "?c2 \<and> met (storage_outcome h reqs)"
  obtain l3 where 3: "check_storage h reqs ?c2 ?m2 = (Inr ?c3, ?m2\<lparr>console := console ?m2 @ l3\<rparr>)"
    and r3: "reports l3 = [report Storage StorageInfo (storage_outcome h reqs)]"
    using check_storage_reports[of h reqs ?c2 ?m2] by blast
  let ?m3 = "?m2\<lparr>console := console ?m2 @ l3\<rparr>"
  let ?c4 = "?c3 \<and> (target \<noteq> ''Windows 11'' \<or> firmware_met h)"
  obtain l4 where 4:
      "(if target = ''Windows 11'' then check_tpm_secure_boot h ?c3 else ret ?c3) ?m3 =
         (Inr ?c4, ?m3\<lparr>console := console ?m3 @ l4\<rparr>)"
    and r4: "reports l4 = (if target = ''Windows 11'' then firmware_reports h else [])"
  proof (cases "target = ''Windows 11''")
    case True
    with check_tpm_secure_boot_reports[of h ?c3 ?m3] that show thesis by simp
  next
    case False
    then have "(if target = ''Windows 11'' then check_tpm_secure_boot h ?c3 else ret ?c3) ?m3 =
         (Inr ?c4, ?m3\<lparr>console := console ?m3 @ []\<rparr>)"
      by (simp add: ret_def)
    with False that[of "[]"] show thesis by (simp add: reports_def)
  qed
  let ?m4 = "?m3\<lparr>console := console ?m3 @ l4\<rparr>"
  have s: "select_target h m = (Inr (Some (target, reqs)), m)"
    by (rule select_target_selected[OF sel])
  have run: "check_upgrade_compatibility h m =
      andthen (say rule_line) (andthen (say (Verdict target ?c4)) (say rule_line)) ?m4"
    unfolding check_upgrade_compatibility_def print_section_def
    apply (simp only: win simp_thms if_False)
    apply (rule bind_returned[of "select_target h" m, OF s])
    apply (simp only: option.case prod.case)
    apply (rule andthen_said)
    apply (rule bind_returned[of "check_cpu h reqs True" ?m0, OF 1])
    apply (rule bind_returned[of "check_ram h reqs ?c1" ?m1, OF 2])
    apply (rule bind_returned[of "check_storage h reqs ?c2" ?m2, OF 3])
    apply (rule bind_returned[of "if target = ''Windows 11'' then check_tpm_secure_boot h ?c3
                                  else ret ?c3" ?m3, OF 4])
    apply simp
    done
  have out: "check_upgrade_compatibility h m =
      (Inr (), m\<lparr>console := console m @
         ?title # l1 @ l2 @ l3 @ l4 @ [rule_line, Verdict target ?c4, rule_line]\<rparr>)"
    unfolding run by (simp add: andthen_def bind_def say_def)
  have "printed (check_upgrade_compatibility h) m =
         ?title # l1 @ l2 @ l3 @ l4 @ [rule_line, Verdict target ?c4, rule_line]"
    by (rule printed_append) (simp add: out)
  then have "reports (printed (check_upgrade_compatibility h) m) =
      reports l1 @ reports l2 @ reports l3 @ reports l4 @ [Verdict target ?c4]"
    by (simp add: reports_def rule_line_def)
  with r1 r2 r3 r4 out show ?thesis by simp
qed

section \<open>The example hosts\<close>

lemma example_host_fields:
  "platform_system example_host = ''Windows''"
  "platform_release example_host = ''10''"
  "platform_version example_host = ''10.0.19045''"
  "cpu_percent example_host = Inr 12"
  "cpu_freq example_host = Inr (Some \<lparr>freq_current = 2000, freq_max = 3000\<rparr>)"
  "cpu_count example_host = Inr (Some 1)"
  "has_sensors_temperatures example_host = False"
  "virtual_memory example_host =
     Inr \<lparr>mem_total = 8 * 1024 ^ 3, mem_used = 2 * 1024 ^ 3, mem_percent = 25\<rparr>"
  "disk_partitions example_host = Inr [\<lparr>device = system_drive, mountpoint = system_drive\<rparr>]"
  "disk_usage example_host path = Inr example_usage"
  "sensors_battery example_host = Inr None"
  "getGPUs example_host = Inr []"
  "net_if_addrs example_host =
     Inr [(''Ethernet'',
           [\<lparr>family = - 1, address = ''00-11-22-33-44-55''\<rparr>,
            \<lparr>family = 2, address = ''192.168.1.10''\<rparr>,
            \<lparr>family = 23, address = ''fe80::1''\<rparr>])]"
  "WMI example_host = Inr example_wmi"
  by (simp_all add: example_host_def)

lemma example_wmi_fields:
  "Win32_OperatingSystem example_wmi = Inr [\<lparr>os_SecureBoot = Inr True\<rparr>]"
  "Win32_Tpm example_wmi = Inr [\<lparr>SpecVersion = Inr (Some ''2.0'')\<rparr>]"
  by (simp_all add: example_wmi_def)

lemmas py_defs = py_strip_def py_index_def py_int_def unsigned_int_def digit_val_def is_space_def

lemmas example_hosts =
  battery_fault_host_def secure_boot_fault_host_def windows11_host_def full_disks_host_def
  stressed_host_def example_host_fields example_wmi_fields

lemma example_versions:
  "major_version example_host = Inr 10"
  "build_number example_host = Inr 19045"
  "build_number windows11_host = Inr 22000"
  by (simp_all add: major_version_def build_number_def example_hosts py_defs)

lemma select_target_returns:
  assumes "major_version h = Inr v" and "build_number h = Inr n"
  shows "returns (select_target h)"
  using assms by (simp add: returns_def select_target_by_version)

lemma example_hosts_return:
  "returns (get_disk_info stressed_host)"
  "returns (get_battery_info stressed_host)"
  "returns (check_upgrade_compatibility stressed_host)"
  "returns (get_disk_info full_disks_host)"
  "returns (get_battery_info full_disks_host)"
  "returns (check_upgrade_compatibility full_disks_host)"
  "returns (get_disk_info battery_fault_host)"
proof -
  have "major_version stressed_host = Inr 10" "build_number stressed_host = Inr 19045"
    "major_version full_disks_host = Inr 10" "build_number full_disks_host = Inr 19045"
    using example_versions(1,2) by (simp_all add: major_version_def build_number_def example_hosts)
  then show "returns (check_upgrade_compatibility stressed_host)"
    "returns (check_upgrade_compatibility full_disks_host)"
    by (auto intro!: check_upgrade_compatibility_returns select_target_returns)
  show "returns (get_disk_info stressed_host)" "returns (get_disk_info full_disks_host)"
    "returns (get_disk_info battery_fault_host)"
    by (rule get_disk_info_returns, simp add: example_hosts)+
  show "returns (get_battery_info stressed_host)" "returns (get_battery_info full_disks_host)"
    by (rule get_battery_info_returns, simp add: example_hosts)+
qed

lemma stressed_host_scores:
  "health_score (snd (get_cpu_info stressed_host m)) = health_score m - 10"
  "health_score (snd (get_ram_info stressed_host m)) = health_score m - 10"
  "health_score (snd (get_disk_info stressed_host m)) = health_score m - 0"
  "health_score (snd (get_battery_info stressed_host m)) = health_score m - 10"
  "health_score (snd (get_gpu_info stressed_host m)) = health_score m - 10"
  by (simp_all add: get_cpu_info_def cpu_temperature_def get_ram_info_def get_disk_info_def
        disk_partition_def get_battery_info_def plugged_def get_gpu_info_def gpu_report_def
        run_defs opt_int_def example_hosts example_usage_def)

lemma full_disks_host_scores:
  "health_score (snd (get_cpu_info full_disks_host m)) = health_score m - 0"
  "health_score (snd (get_ram_info full_disks_host m)) = health_score m - 0"
  "health_score (snd (get_disk_info full_disks_host m)) = health_score m - 110"
  "health_score (snd (get_battery_info full_disks_host m)) = health_score m - 0"
  "health_score (snd (get_gpu_info full_disks_host m)) = health_score m - 0"
proof -
  have "disk_partitions full_disks_host =
          Inr (replicate 11 \<lparr>device = ''D:'', mountpoint = ''D:''\<rparr>)"
    by (simp add: example_hosts)
  from get_disk_info_score[OF this]
  show "health_score (snd (get_disk_info full_disks_host m)) = health_score m - 110"
    by (simp add: nearly_full_def example_hosts example_usage_def)
qed (simp_all add: get_cpu_info_def cpu_temperature_def get_ram_info_def
        get_battery_info_def get_gpu_info_def fallback_gpu_detection_def
        video_controller_report_def run_defs opt_int_def example_hosts example_wmi_def)

lemma accounted_final:
  assumes "accounted m"
  shows "health_score m = 100 - total_penalty (console m)"
    and "health_score m \<le> 100"
    and "HealthScore c n \<notin> set (console m)"
proof -
  show 1: "health_score m = 100 - total_penalty (console m)"
    using assms by (simp add: accounted_def)
  show "health_score m \<le> 100"
    using 1 total_penalty_nonneg[of "console m"] by simp
  show "HealthScore c n \<notin> set (console m)"
    using assms by (simp add: accounted_def no_score_line)
qed

lemma report_final:
  assumes con: "console m = ls @ [Section title, HealthScore c (health_score m), Message t]"
    and ls: "\<not> list_ex is_score_line ls"
    and score: "health_score m = 100 - total_penalty ls"
  shows "health_score m = 100 - total_penalty (console m)"
    and "health_score m \<le> 100"
    and "HealthScore c' n \<in> set (console m) \<Longrightarrow> n = 100 - total_penalty (console m)"
    and "HealthScore c (health_score m) \<in> set (console m)"
proof -
  have pen: "total_penalty (console m) = total_penalty ls"
    unfolding con by (simp add: total_penalty_def)
  show 1: "health_score m = 100 - total_penalty (console m)"
    using score pen by simp
  show "health_score m \<le> 100"
    using score total_penalty_nonneg[of ls] by simp
  show "HealthScore c (health_score m) \<in> set (console m)"
    by (subst con) simp
  assume "HealthScore c' n \<in> set (console m)"
  then have "HealthScore c' n \<in> set (ls @ [Section title, HealthScore c (health_score m), Message t])"
    using con by simp
  with no_score_line[OF ls, of c' n] have "n = health_score m" by simp
  with 1 show "n = 100 - total_penalty (console m)" by simp
qed

section \<open>The properties\<close>

subsection \<open>The score and the breaches\<close>

text \<open>
  Claim C1. For every host, the score the monitor holds at the end of the run is 100 minus
  the sum of the penalties of the breaches triggered in that run, a breach being triggered
  when its warning is printed (15 for the CPU temperature, 10 for CPU usage, RAM, a disk
  partition, the battery and a GPU); the score is at most 100; every score that
  \<^verbatim>\<open>show_health_report\<close> has rendered on the console is that number; and a run that
  returns has rendered it.
\<close>

theorem final_score_accounts_for_breaches:
  "health_score (snd (main h)) = 100 - total_penalty (console (snd (main h)))
   \<and> health_score (snd (main h)) \<le> 100
   \<and> (\<forall>c n. HealthScore c n \<in> set (console (snd (main h))) \<longrightarrow>
          n = 100 - total_penalty (console (snd (main h))))
   \<and> (fst (main h) = Inr () \<longrightarrow>
        (\<exists>c. HealthScore c (health_score (snd (main h))) \<in> set (console (snd (main h)))))"
proof (cases "fst (main h)")
  case (Inl e)
  with reported_main[of h] have acc: "accounted (snd (main h))"
    by (simp add: reported_def)
  show ?thesis
    using accounted_final[OF acc] Inl by simp
next
  case (Inr u)
  with reported_main[of h] obtain ls c t
    where con: "console (snd (main h)) =
            ls @ [Section ''System Health Report'', HealthScore c (health_score (snd (main h))),
                  Message t]"
      and ls: "\<not> list_ex is_score_line ls"
      and score: "health_score (snd (main h)) = 100 - total_penalty ls"
    unfolding reported_def by auto
  note fin = report_final[OF con ls score]
  show ?thesis
  proof (intro conjI allI impI)
    show "health_score (snd (main h)) = 100 - total_penalty (console (snd (main h)))"
      by (rule fin(1))
  next
    show "health_score (snd (main h)) \<le> 100"
      by (rule fin(2))
  next
    fix c' n
    assume "HealthScore c' n \<in> set (console (snd (main h)))"
    then show "n = 100 - total_penalty (console (snd (main h)))"
      by (rule fin(3))
  next
    show "\<exists>c. HealthScore c (health_score (snd (main h))) \<in> set (console (snd (main h)))"
      using fin(4) by (rule exI)
  qed
qed

lemma stressed_host_report:
  "HealthScore YELLOW 60 \<in> set (console (snd (main stressed_host)))"
proof -
  from main_reaches_report[OF example_hosts_return(1-3) stressed_host_scores]
  obtain m where "main stressed_host = show_health_report m" and "health_score m = 60"
    by auto
  then show ?thesis by (simp add: show_health_report_console)
qed

text \<open>
  Witness for C1: on the stressed host four breaches are triggered (CPU usage, RAM,
  battery, GPU) and the report shows 60.
\<close>

theorem final_score_accounts_for_breaches_witness:
  "HealthScore YELLOW 60 \<in> set (console (snd (main stressed_host)))
   \<and> 60 = 100 - total_penalty (console (snd (main stressed_host)))"
  using final_score_accounts_for_breaches[of stressed_host] stressed_host_report by blast

text \<open>
  Claim C2. \<^verbatim>\<open>health_score\<close> starts at 100; every operation of the monitor, whatever its
  outcome, leaves a score that is at most the score it started from, so the score of a run
  never exceeds 100; and nothing keeps it from going below 0: some host ends its run with
  a negative score.
\<close>

theorem score_never_increases:
  "health_score init = 100
   \<and> health_score (snd (get_system_info h m)) \<le> health_score m
   \<and> health_score (snd (get_last_windows_update h m)) \<le> health_score m
   \<and> health_score (snd (get_cpu_info h m)) \<le> health_score m
   \<and> health_score (snd (get_ram_info h m)) \<le> health_score m
   \<and> health_score (snd (get_disk_info h m)) \<le> health_score m
   \<and> health_score (snd (get_battery_info h m)) \<le> health_score m
   \<and> health_score (snd (get_gpu_info h m)) \<le> health_score m
   \<and> health_score (snd (fallback_gpu_detection h m)) \<le> health_score m
   \<and> health_score (snd (get_network_info h m)) \<le> health_score m
   \<and> health_score (snd (get_advanced_hardware_info h m)) \<le> health_score m
   \<and> health_score (snd (check_upgrade_compatibility h m)) \<le> health_score m
   \<and> health_score (snd (show_health_report m)) \<le> health_score m
   \<and> health_score (snd (run_all_checks h m)) \<le> health_score m
   \<and> health_score (snd (main h)) \<le> 100
   \<and> (\<exists>h'. health_score (snd (main h')) < 0)"
proof -
  have "health_score (snd (main full_disks_host)) < 0"
    using main_reaches_report[OF example_hosts_return(4-6) full_disks_host_scores]
    by (auto simp: show_health_report_score)
  then have neg: "\<exists>h'. health_score (snd (main h')) < 0" ..
  have run: "health_score (snd (run_all_checks h m')) \<le> health_score m'" for m'
    by (rule lowers_score[OF run_all_checks_lowers])
  have "health_score (snd (main h)) \<le> 100"
    using run[of init] by (simp add: main_def init_def)
  with neg run[of m] show ?thesis
    by (simp add: init_def show_health_report_score informational_score
          lowers_score[OF get_cpu_info_preserves[OF say_lowers_score warning_lowers_score]]
          lowers_score[OF get_ram_info_preserves[OF say_lowers_score warning_lowers_score]]
          lowers_score[OF get_disk_info_preserves[OF say_lowers_score warning_lowers_score]]
          lowers_score[OF get_battery_info_preserves[OF say_lowers_score warning_lowers_score]]
          lowers_score[OF get_gpu_info_preserves[OF say_lowers_score warning_lowers_score]])
qed

text \<open>
  Witness for C2: the host with eleven nearly full partitions.
\<close>

theorem score_never_increases_witness:
  "health_score init = 100
   \<and> health_score (snd (get_disk_info full_disks_host init)) \<le> health_score init
   \<and> health_score (snd (main full_disks_host)) \<le> 100"
  using score_never_increases[of full_disks_host init] by simp

subsection \<open>Errors at the collector boundary\<close>

text \<open>
  Claim C3, at a host where it fails. On the example machine with
  \<^verbatim>\<open>psutil.sensors_battery()\<close> raising, \<^verbatim>\<open>get_battery_info\<close> has no handler: the exception
  leaves \<^verbatim>\<open>run_all_checks\<close>, the collectors after the battery do not run and the report is
  never printed. (The collectors that wrap their queries in \<^verbatim>\<open>try\<close> never raise: see the
  lemmas on \<open>returns\<close>; \<open>main_raises_at_disk\<close> is the same defect for
  \<^verbatim>\<open>psutil.disk_partitions()\<close>.)
\<close>

theorem battery_fault_aborts_run:
  "fst (main battery_fault_host) = Inl (OtherError ''OSError'')
   \<and> \<not> list_ex is_score_line (console (snd (main battery_fault_host)))"
proof -
  have "sensors_battery battery_fault_host = Inl (OtherError ''OSError'')"
    by (simp add: example_hosts)
  from main_raises_at_battery[OF example_hosts_return(7) this]
  show ?thesis by (simp add: main_raised_no_report)
qed

subsection \<open>Upgrade compatibility\<close>

text \<open>
  Claim C4 as stated fails. On the example machine with the \<^verbatim>\<open>SecureBoot\<close> property raising,
  the TPM query would return version 2.0, yet the upgrade check prints no TPM report at
  all: Secure Boot and TPM 2.0 share one \<^verbatim>\<open>try\<close>, and the raise skips the TPM check.
\<close>

theorem secure_boot_fault_skips_tpm:
  "tpm_outcome secure_boot_fault_host = Inr True
   \<and> reports (printed (check_upgrade_compatibility secure_boot_fault_host) init) =
       [Failed Processor, Passed Ram, Passed Storage,
        CouldNotCheck TpmSecureBoot [ExnV AttributeError], Verdict ''Windows 11'' False]
   \<and> Passed Tpm2 \<notin> set (printed (check_upgrade_compatibility secure_boot_fault_host) init)
   \<and> Failed Tpm2 \<notin> set (printed (check_upgrade_compatibility secure_boot_fault_host) init)"
proof -
  have sel: "select_target secure_boot_fault_host m =
     (Inr (Some (''Windows 11'',
        \<lparr>CPU_CORES = 2, CPU_FREQ = 1000, RAM_GB = 4, DISK_GB = 64,
         TPM_2 = Some True, SECURE_BOOT = Some True\<rparr>)), m)" for m
    using example_versions(1,2)
    by (simp add: select_target_by_version major_version_def build_number_def example_hosts)
  have tpm: "tpm_outcome secure_boot_fault_host = Inr True"
    by (simp add: tpm_outcome_def is_tpm_2_0_def example_hosts example_wmi_def)
  have fields:
    "platform_system secure_boot_fault_host = ''Windows''"
    "cpu_count secure_boot_fault_host = Inr (Some 1)"
    "cpu_freq secure_boot_fault_host = Inr (Some \<lparr>freq_current = 2000, freq_max = 3000\<rparr>)"
    "virtual_memory secure_boot_fault_host =
       Inr \<lparr>mem_total = 8 * 1024 ^ 3, mem_used = 2 * 1024 ^ 3, mem_percent = 25\<rparr>"
    "disk_usage secure_boot_fault_host system_drive = Inr example_usage"
    "WMI secure_boot_fault_host =
       Inr (example_wmi\<lparr>Win32_OperatingSystem := Inr [\<lparr>os_SecureBoot = Inl AttributeError\<rparr>]\<rparr>)"
    by (simp_all add: example_hosts)
  have out: "printed (check_upgrade_compatibility secure_boot_fault_host) init =
      [Section ''Upgrade Compatibility Check for Windows 11'',
       Text ''CPU Cores: {} (Required: {}+)'' [IntV 1, IntV 2],
       Text ''CPU Frequency: {} MHz (Required: {}+ MHz)'' [FloatV 2000, IntV 1000],
       Failed Processor,
       Text ''Total RAM: {} GB (Required: {}+ GB)'' [FloatV 8, IntV 4],
       Passed Ram,
       Text ''System Drive Storage: {} GB (Required: {}+ GB)'' [FloatV 100, IntV 64],
       Passed Storage,
       CouldNotCheck TpmSecureBoot [ExnV AttributeError],
       rule_line, Verdict ''Windows 11'' False, rule_line]"
    by (simp add: printed_def check_upgrade_compatibility_def sel check_cpu_def check_ram_def
          check_storage_def check_tpm_secure_boot_def run_defs opt_int_def py_index_def
          fields example_usage_def GiB_def init_def)
  show ?thesis
    unfolding out by (simp add: tpm reports_def rule_line_def)
qed

text \<open>
  Claim C4, amended. Once a candidate target is selected, the check returns and reports,
  in this order and each whatever the earlier outcomes: the processor, the RAM and the
  system drive, each as passed, failed, or could not be checked (when its query raises);
  for target Windows 11, Secure Boot and TPM 2.0 in one joint block: one joint failure when
  the Secure Boot query raises (TPM 2.0 is then not looked at), otherwise the Secure Boot
  outcome followed by the TPM 2.0 outcome; and last the verdict, which is compatible if and
  only if every requirement was met (a query that raises counts as not met).
\<close>

theorem upgrade_requirements_reported:
  assumes "platform_system h = ''Windows''"
    and "fst (select_target h m) = Inr (Some (target, reqs))"
  shows "fst (check_upgrade_compatibility h m) = Inr ()
    \<and> reports (printed (check_upgrade_compatibility h) m) =
        [report Processor ProcessorInfo (processor_outcome h reqs),
         report Ram RamInfo (ram_outcome h reqs),
         report Storage StorageInfo (storage_outcome h reqs)]
        @ (if target = ''Windows 11'' then firmware_reports h else [])
        @ [Verdict target
             (met (processor_outcome h reqs) \<and> met (ram_outcome h reqs)
              \<and> met (storage_outcome h reqs)
              \<and> (target \<noteq> ''Windows 11'' \<or> firmware_met h))]"
  by (rule upgrade_reports[OF assms])

lemma example_host_target:
  "select_target example_host m =
     (Inr (Some (''Windows 11'',
        \<lparr>CPU_CORES = 2, CPU_FREQ = 1000, RAM_GB = 4, DISK_GB = 64,
         TPM_2 = Some True, SECURE_BOOT = Some True\<rparr>)), m)"
  by (simp add: select_target_by_version example_versions)

text \<open>
  Witness for C4: version 10, build 19045, one core at 2000 MHz, 8 GB of RAM, a 100 GB
  system drive, TPM 2.0 and Secure Boot enabled. Only the processor fails (1 core, 2 are
  required), everything else passes, and the verdict is not compatible.
\<close>

theorem upgrade_requirements_reported_witness:
  "platform_system example_host = ''Windows''
   \<and> fst (select_target example_host init) =
       Inr (Some (''Windows 11'',
         \<lparr>CPU_CORES = 2, CPU_FREQ = 1000, RAM_GB = 4, DISK_GB = 64,
          TPM_2 = Some True, SECURE_BOOT = Some True\<rparr>))
   \<and> fst (check_upgrade_compatibility example_host init) = Inr ()
   \<and> reports (printed (check_upgrade_compatibility example_host) init) =
       [Failed Processor, Passed Ram, Passed Storage, Passed SecureBoot, Passed Tpm2,
        Verdict ''Windows 11'' False]"
proof -
  let ?reqs = "\<lparr>CPU_CORES = 2, CPU_FREQ = 1000, RAM_GB = 4, DISK_GB = 64,
                TPM_2 = Some True, SECURE_BOOT = Some True\<rparr>"
  have win: "platform_system example_host = ''Windows''"
    by (simp add: example_hosts)
  have sel: "fst (select_target example_host init) = Inr (Some (''Windows 11'', ?reqs))"
    by (simp add: example_host_target)
  have outcomes:
    "processor_outcome example_host ?reqs = Inr False"
    "ram_outcome example_host ?reqs = Inr True"
    "storage_outcome example_host ?reqs = Inr True"
    "secure_boot_outcome example_host = Inr True"
    "tpm_outcome example_host = Inr True"
    by (simp_all add: processor_outcome_def ram_outcome_def storage_outcome_def
          secure_boot_outcome_def tpm_outcome_def is_tpm_2_0_def example_hosts
          example_usage_def GiB_def)
  show ?thesis
    using upgrade_requirements_reported[OF win sel] win sel
    by (simp add: outcomes report_def firmware_reports_def firmware_met_def met_def)
qed

text \<open>
  Claim C5. On Windows, when the major version is 10 and the build number is at least
  22000, \<^verbatim>\<open>check_upgrade_compatibility\<close> returns after printing its section title and the
  message that the system already runs Windows 11 or newer: no requirement is evaluated
  or reported, and the score is unchanged.
\<close>

theorem windows11_needs_no_check:
  assumes "platform_system h = ''Windows''"
    and "major_version h = Inr 10"
    and "build_number h = Inr n"
    and "22000 \<le> n"
  shows "check_upgrade_compatibility h m =
     (Inr (), m\<lparr>console := console m @
        [Section ''Windows Upgrade Compatibility'', AlreadyWindows11]\<rparr>)
    \<and> health_score (snd (check_upgrade_compatibility h m)) = health_score m"
  using assms
  by (simp add: check_upgrade_compatibility_def bind_def ret_def
        select_target_windows11[OF assms(2-4)])

text \<open>
  Witness for C5: release \<open>10\<close>, version \<open>10.0.22000\<close>.
\<close>

theorem windows11_needs_no_check_witness:
  "platform_system windows11_host = ''Windows''
   \<and> major_version windows11_host = Inr 10
   \<and> build_number windows11_host = Inr 22000
   \<and> printed (check_upgrade_compatibility windows11_host) init =
       [Section ''Windows Upgrade Compatibility'', AlreadyWindows11]
   \<and> health_score (snd (check_upgrade_compatibility windows11_host init)) = 100"
proof -
  have win: "platform_system windows11_host = ''Windows''"
    by (simp add: example_hosts)
  have major: "major_version windows11_host = Inr 10"
    using example_versions(1) by (simp add: major_version_def example_hosts)
  have build: "build_number windows11_host = Inr 22000"
    by (rule example_versions(3))
  show ?thesis
    using windows11_needs_no_check[OF win major build, of init] win major build
    by (simp add: printed_def init_def)
qed

subsection \<open>Disk, battery, report and network\<close>

text \<open>
  Claim C6. When \<^verbatim>\<open>psutil.disk_partitions()\<close> returns, \<^verbatim>\<open>get_disk_info\<close> returns and lowers
  the score by 10 for every partition that can be read and is more than 90% full: with N
  such partitions the penalty is 10 times N. One partition costs 10 when it is readable and
  above 90%, and nothing otherwise.
\<close>

theorem disk_penalty_accumulates:
  assumes "disk_partitions h = Inr ps"
  shows "fst (get_disk_info h m) = Inr ()
    \<and> health_score (snd (get_disk_info h m)) =
        health_score m - 10 * int (length (filter (nearly_full h) ps))
    \<and> health_score (snd (disk_partition h p m)) =
        health_score m - (if nearly_full h p then 10 else 0)"
  using get_disk_info_score[OF assms, of m] returns_unit[OF get_disk_info_returns[OF assms], of m]
  by (simp add: disk_partition_score)

text \<open>
  Witness for C6: eleven partitions at 95% cost 110 points.
\<close>

theorem disk_penalty_accumulates_witness:
  "disk_partitions full_disks_host = Inr (replicate 11 \<lparr>device = ''D:'', mountpoint = ''D:''\<rparr>)
   \<and> fst (get_disk_info full_disks_host init) = Inr ()
   \<and> health_score (snd (get_disk_info full_disks_host init)) = 100 - 10 * 11"
proof -
  have ps: "disk_partitions full_disks_host =
      Inr (replicate 11 \<lparr>device = ''D:'', mountpoint = ''D:''\<rparr>)"
    by (simp add: example_hosts)
  show ?thesis
    using disk_penalty_accumulates[OF ps, of init] ps
    by (simp add: nearly_full_def example_hosts example_usage_def init_def)
qed

text \<open>
  Claim C7. When a battery is present, \<^verbatim>\<open>get_battery_info\<close> returns, and it applies the
  10-point penalty (and prints the warning) if and only if the charge is strictly below 30
  and the power is not plugged in, that is, \<^verbatim>\<open>power_plugged\<close> is not \<^verbatim>\<open>True\<close>. A plugged-in
  battery is never penalised, and a battery at exactly 30% is not either.
\<close>

theorem battery_penalty_iff:
  assumes "sensors_battery h = Inr (Some b)"
  shows "fst (get_battery_info h m) = Inr ()
    \<and> health_score (snd (get_battery_info h m)) =
        health_score m - (if bat_percent b < 30 \<and> power_plugged b \<noteq> Some True then 10 else 0)
    \<and> (Warning LowBattery [] \<in> set (printed (get_battery_info h) m)
          \<longleftrightarrow> bat_percent b < 30 \<and> power_plugged b \<noteq> Some True)
    \<and> (power_plugged b = Some True \<longrightarrow>
          health_score (snd (get_battery_info h m)) = health_score m)
    \<and> (bat_percent b = 30 \<longrightarrow>
          health_score (snd (get_battery_info h m)) = health_score m)"
  by (simp add: get_battery_info_present[OF assms] printed_def plugged_def)

text \<open>
  Witness for C7: a battery at 12% on battery power costs 10 points.
\<close>

theorem battery_penalty_iff_witness:
  "sensors_battery stressed_host = Inr (Some \<lparr>bat_percent = 12, power_plugged = Some False\<rparr>)
   \<and> health_score (snd (get_battery_info stressed_host init)) = 90
   \<and> Warning LowBattery [] \<in> set (printed (get_battery_info stressed_host) init)"
proof -
  have b: "sensors_battery stressed_host =
      Inr (Some \<lparr>bat_percent = 12, power_plugged = Some False\<rparr>)"
    by (simp add: example_hosts)
  show ?thesis
    using battery_penalty_iff[OF b, of init] b by (simp add: init_def)
qed

text \<open>
  Claim C8. \<^verbatim>\<open>show_health_report\<close> prints the score with the tone its value selects: good
  condition from 80 up, needs attention from 50 to 79, poor condition below 50.
\<close>

theorem report_tone_boundaries:
  "(80 \<le> health_score m \<longrightarrow>
      printed show_health_report m =
        [Section ''System Health Report'', HealthScore GREEN (health_score m),
         Message GoodCondition])
   \<and> (50 \<le> health_score m \<and> health_score m \<le> 79 \<longrightarrow>
      printed show_health_report m =
        [Section ''System Health Report'', HealthScore YELLOW (health_score m),
         Message NeedsAttention])
   \<and> (health_score m < 50 \<longrightarrow>
      printed show_health_report m =
        [Section ''System Health Report'', HealthScore RED (health_score m),
         Message PoorCondition])"
  by (simp add: printed_def show_health_report_console)

text \<open>
  Witness for C8: the boundaries 80, 79, 50 and 49.
\<close>

theorem report_tone_boundaries_witness:
  "printed show_health_report \<lparr>health_score = 80, console = []\<rparr> =
     [Section ''System Health Report'', HealthScore GREEN 80, Message GoodCondition]
   \<and> printed show_health_report \<lparr>health_score = 79, console = []\<rparr> =
     [Section ''System Health Report'', HealthScore YELLOW 79, Message NeedsAttention]
   \<and> printed show_health_report \<lparr>health_score = 50, console = []\<rparr> =
     [Section ''System Health Report'', HealthScore YELLOW 50, Message NeedsAttention]
   \<and> printed show_health_report \<lparr>health_score = 49, console = []\<rparr> =
     [Section ''System Health Report'', HealthScore RED 49, Message PoorCondition]"
  using report_tone_boundaries[of "\<lparr>health_score = 80, console = []\<rparr>"]
    report_tone_boundaries[of "\<lparr>health_score = 79, console = []\<rparr>"]
    report_tone_boundaries[of "\<lparr>health_score = 50, console = []\<rparr>"]
    report_tone_boundaries[of "\<lparr>health_score = 49, console = []\<rparr>"]
  by simp

text \<open>
  Claim C9. \<^verbatim>\<open>get_network_info\<close> never changes the score. When the platform returns the
  interfaces, it returns and prints, after its section title and for every interface in
  order, the name of the interface and then one line per address: the address as a MAC
  address when its family is the link-layer family (\<open>- 1\<close>, the value the source tests),
  as an IP address when its family is \<^verbatim>\<open>AF_INET\<close>, and nothing for the other families.
\<close>

theorem network_lists_mac_and_ip:
  "health_score (snd (get_network_info h m)) = health_score m
   \<and> (\<forall>net. net_if_addrs h = Inr net \<longrightarrow>
        fst (get_network_info h m) = Inr ()
        \<and> printed (get_network_info h) m =
            Section ''Network Information'' # concat (map interface_lines net))
   \<and> interface_lines (name, addrs) = Interface name # concat (map address_lines addrs)
   \<and> (family a = - 1 \<longrightarrow> address_lines a = [MacAddress (address a)])
   \<and> (family a \<noteq> - 1 \<and> family a = AF_INET \<longrightarrow> address_lines a = [IpAddress (address a)])"
  by (simp add: informational_score get_network_info_console printed_def interface_lines_def
        address_lines_def)

text \<open>
  Witness for C9: one interface with a MAC address, an IPv4 address and an IPv6 address.
\<close>

theorem network_lists_mac_and_ip_witness:
  "net_if_addrs example_host =
     Inr [(''Ethernet'',
           [\<lparr>family = - 1, address = ''00-11-22-33-44-55''\<rparr>,
            \<lparr>family = 2, address = ''192.168.1.10''\<rparr>,
            \<lparr>family = 23, address = ''fe80::1''\<rparr>])]
   \<and> printed (get_network_info example_host) init =
       [Section ''Network Information'', Interface ''Ethernet'',
        MacAddress ''00-11-22-33-44-55'', IpAddress ''192.168.1.10'']
   \<and> health_score (snd (get_network_info example_host init)) = 100"
  using network_lists_mac_and_ip[of example_host init]
  by (simp add: example_hosts interface_lines_def address_lines_def AF_INET_def init_def)

subsection \<open>Operations that leave the score alone\<close>

text \<open>
  Claim C10. \<^verbatim>\<open>get_system_info\<close>, \<^verbatim>\<open>get_last_windows_update\<close>, \<^verbatim>\<open>get_network_info\<close>,
  \<^verbatim>\<open>get_advanced_hardware_info\<close>, \<^verbatim>\<open>_fallback_gpu_detection\<close> and
  \<^verbatim>\<open>check_upgrade_compatibility\<close> leave \<^verbatim>\<open>health_score\<close> as it was, on every host and
  whatever their outcome, and so does \<^verbatim>\<open>show_health_report\<close>; each of the CPU, RAM, disk,
  battery and GPU checks changes it on some host.
\<close>

theorem informational_operations_keep_score:
  "health_score (snd (get_system_info h m)) = health_score m
   \<and> health_score (snd (get_last_windows_update h m)) = health_score m
   \<and> health_score (snd (get_network_info h m)) = health_score m
   \<and> health_score (snd (get_advanced_hardware_info h m)) = health_score m
   \<and> health_score (snd (fallback_gpu_detection h m)) = health_score m
   \<and> health_score (snd (check_upgrade_compatibility h m)) = health_score m
   \<and> health_score (snd (show_health_report m)) = health_score m
   \<and> (\<exists>h' m'. health_score (snd (get_cpu_info h' m')) \<noteq> health_score m')
   \<and> (\<exists>h' m'. health_score (snd (get_ram_info h' m')) \<noteq> health_score m')
   \<and> (\<exists>h' m'. health_score (snd (get_disk_info h' m')) \<noteq> health_score m')
   \<and> (\<exists>h' m'. health_score (snd (get_battery_info h' m')) \<noteq> health_score m')
   \<and> (\<exists>h' m'. health_score (snd (get_gpu_info h' m')) \<noteq> health_score m')"
proof -
  have "health_score (snd (get_cpu_info stressed_host init)) \<noteq> health_score init"
    "health_score (snd (get_ram_info stressed_host init)) \<noteq> health_score init"
    "health_score (snd (get_disk_info full_disks_host init)) \<noteq> health_score init"
    "health_score (snd (get_battery_info stressed_host init)) \<noteq> health_score init"
    "health_score (snd (get_gpu_info stressed_host init)) \<noteq> health_score init"
    by (simp_all add: stressed_host_scores full_disks_host_scores)
  then have "\<exists>h' m'. health_score (snd (get_cpu_info h' m')) \<noteq> health_score m'"
    "\<exists>h' m'. health_score (snd (get_ram_info h' m')) \<noteq> health_score m'"
    "\<exists>h' m'. health_score (snd (get_disk_info h' m')) \<noteq> health_score m'"
    "\<exists>h' m'. health_score (snd (get_battery_info h' m')) \<noteq> health_score m'"
    "\<exists>h' m'. health_score (snd (get_gpu_info h' m')) \<noteq> health_score m'"
    by blast+
  then show ?thesis
    by (simp add: informational_score show_health_report_score)
qed

text \<open>
  Witness for C10: the example machine.
\<close>

theorem informational_operations_keep_score_witness:
  "health_score (snd (check_upgrade_compatibility example_host init)) = 100
   \<and> health_score (snd (get_advanced_hardware_info example_host init)) = 100
   \<and> health_score (snd (fallback_gpu_detection example_host init)) = 100"
  using informational_operations_keep_score[of example_host init] by (simp add: init_def)

end
